theory Spec2Isabelle
  imports Main "HOL-Library.Code_Target_Numeral"
begin

section \<open>Python values, exceptions and the interpreter's library\<close>

text \<open>
  The programs exchange JSON documents. A decoded document is a \<open>json\<close> value: Python's
  \<open>None\<close>, \<open>bool\<close>, \<open>int\<close>, \<open>str\<close>, \<open>list\<close> and \<open>dict\<close> (an association list in insertion
  order, keys being strings). JSON numbers with a fraction (Python floats) are outside the
  model. A \<open>str\<close> and a \<open>bytes\<close> object are both a \<open>string\<close>: the list of its bytes in UTF-8.
\<close>

datatype json =
    JNull
  | JBool bool
  | JInt int
  | JStr string
  | JArr "json list"
  | JObj "(string \<times> json) list"

text \<open>
  Exceptions. \<open>RuntimeError\<close> and \<open>ValueError\<close> carry the argument the source gives them;
  \<open>InvalidLiteral\<close> is the \<open>ValueError\<close> that \<open>int()\<close> raises, for a text that is no integer
  literal and for one with more digits than the interpreter converts; the others are raised
  by the interpreter or its library with a message of their own.
\<close>

datatype exc =
    RuntimeError json
  | ValueError string
  | InvalidLiteral
  | TypeError
  | AttributeError
  | KeyError
  | IndexError
  | JSONDecodeError
  | UnicodeDecodeError
  | BrokenPipeError
  | OverflowError
  | MemoryError

text \<open>
  What a call does: it returns a value, raises, or blocks for ever (a read on a pipe that
  nobody will write to again).
\<close>

datatype 'a outcome = Return 'a | Raise exc | Blocks

text \<open>
  The parts of the Python library whose code is not in the repository are parameters:
  \<^item> \<open>dumps\<close>: \<open>json.dumps(v)\<close>, also as \<open>json.dumps(v).encode("utf-8")\<close> (the default
    \<open>ensure_ascii\<close> makes the text ASCII, so the encoding changes nothing);
  \<^item> \<open>loads\<close>: \<open>json.loads(b.decode("utf-8"))\<close>, which raises on bytes that are not UTF-8
    or not JSON;
  \<^item> \<open>py_str\<close>: \<open>str(v)\<close> for a value that is not a \<open>str\<close>, as an f-string formats it;
  \<^item> \<open>exc_text\<close>: \<open>str(e)\<close> for an exception raised by the interpreter;
  \<^item> \<open>utcnow\<close>: \<open>datetime.utcnow().isoformat()\<close>;
  \<^item> \<open>int_max_str_digits\<close>: \<open>sys.get_int_max_str_digits()\<close>, the largest number of digits
    that \<open>int()\<close> converts: 4300 unless configured, 0 for no limit (an interpreter older
    than the setting has none);
  \<^item> \<open>alloc_error\<close>: what the machine does when a \<open>bytes\<close> object of \<open>k\<close> bytes is allocated,
    \<open>None\<close> when it gets the memory, otherwise the exception raised: \<open>MemoryError\<close>, or
    \<open>OverflowError\<close> for a size that no object can have.
\<close>

record env =
  dumps :: "json \<Rightarrow> string"
  loads :: "string \<Rightarrow> exc + json"
  py_str :: "json \<Rightarrow> string"
  exc_text :: "exc \<Rightarrow> string"
  utcnow :: string
  int_max_str_digits :: nat
  alloc_error :: "nat \<Rightarrow> exc option"

abbreviation LF :: char where "LF \<equiv> CHR 0x0A"

abbreviation CRLF :: string where "CRLF \<equiv> [CHR 0x0D, CHR 0x0A]"

subsection \<open>Dictionaries and formatting\<close>

text \<open>\<open>d.get(k)\<close> is \<open>None\<close> for a missing key; \<open>d.get(k, default)\<close> the default.\<close>

definition dict_get :: "(string \<times> json) list \<Rightarrow> string \<Rightarrow> json" where
  "dict_get d k = (case map_of d k of None \<Rightarrow> JNull | Some v \<Rightarrow> v)"

definition dict_get_default :: "(string \<times> json) list \<Rightarrow> string \<Rightarrow> json \<Rightarrow> json" where
  "dict_get_default d k dflt = (case map_of d k of None \<Rightarrow> dflt | Some v \<Rightarrow> v)"

text \<open>\<open>f"{v}"\<close>: a \<open>str\<close> is inserted as it is, any other value through \<open>str()\<close>.\<close>

definition format_value :: "env \<Rightarrow> json \<Rightarrow> string" where
  "format_value rt v = (case v of JStr s \<Rightarrow> s | _ \<Rightarrow> py_str rt v)"

text \<open>Python's truth value of a JSON value: \<open>not v\<close> holds for these and only these.\<close>

definition truthy :: "json \<Rightarrow> bool" where
  "truthy v = (case v of
      JNull \<Rightarrow> False
    | JBool b \<Rightarrow> b
    | JInt n \<Rightarrow> n \<noteq> 0
    | JStr s \<Rightarrow> s \<noteq> []
    | JArr xs \<Rightarrow> xs \<noteq> []
    | JObj d \<Rightarrow> d \<noteq> [])"

text \<open>\<open>str(exc)\<close>, the message of an exception.\<close>

definition str_exc :: "env \<Rightarrow> exc \<Rightarrow> string" where
  "str_exc rt e = (case e of
      ValueError m \<Rightarrow> m
    | RuntimeError v \<Rightarrow> format_value rt v
    | _ \<Rightarrow> exc_text rt e)"

subsection \<open>Bytes: \<open>lower\<close>, \<open>startswith\<close>, \<open>split\<close>, \<open>strip\<close>, \<open>int\<close> and decimal formatting\<close>

definition lower_byte :: "char \<Rightarrow> char" where
  "lower_byte c =
     (case map_of (zip ''ABCDEFGHIJKLMNOPQRSTUVWXYZ'' ''abcdefghijklmnopqrstuvwxyz'') c of
        None \<Rightarrow> c
      | Some d \<Rightarrow> d)"

definition lower :: "string \<Rightarrow> string" where
  "lower s = map lower_byte s"

definition startswith :: "string \<Rightarrow> string \<Rightarrow> bool" where
  "startswith s p = (take (length p) s = p)"

text \<open>\<open>line.split(b":", 1)[1]\<close>: what follows the first colon; \<open>IndexError\<close> without one.\<close>

definition after_colon :: "string \<Rightarrow> exc + string" where
  "after_colon line =
     (case dropWhile (\<lambda>c. c \<noteq> CHR '':'') line of
        [] \<Rightarrow> Inl IndexError
      | _ # r \<Rightarrow> Inr r)"

definition is_space :: "char \<Rightarrow> bool" where
  "is_space c = (c \<in> set [CHR 0x20, CHR 0x09, CHR 0x0A, CHR 0x0B, CHR 0x0C, CHR 0x0D])"

definition strip :: "string \<Rightarrow> string" where
  "strip s = rev (dropWhile is_space (rev (dropWhile is_space s)))"

definition is_digit :: "char \<Rightarrow> bool" where
  "is_digit c = (c \<in> set ''0123456789'')"

definition digit_val :: "char \<Rightarrow> nat" where
  "digit_val c =
     (case map_of (zip ''0123456789'' [0, 1, 2, 3, 4, 5, 6, 7, 8, 9]) c of
        None \<Rightarrow> 0
      | Some d \<Rightarrow> d)"

text \<open>
  The digits of an integer literal as \<open>int()\<close> reads them: decimal digits, single
  underscores allowed between two digits. The flag says whether the previous byte was a
  digit.
\<close>

fun int_digits :: "bool \<Rightarrow> nat \<Rightarrow> string \<Rightarrow> nat option" where
  "int_digits prev acc [] = (if prev then Some acc else None)"
| "int_digits prev acc (c # cs) =
     (if is_digit c then int_digits True (10 * acc + digit_val c) cs
      else if c = CHR ''_'' \<and> prev then int_digits False acc cs
      else None)"

text \<open>
  The limit on the length of a literal: \<open>int()\<close> counts the digits (not the sign, not the
  underscores) and refuses more than \<open>int_max_str_digits\<close> of them when that limit is set;
  it never refuses 640 digits or fewer.
\<close>

definition too_many_digits :: "env \<Rightarrow> string \<Rightarrow> bool" where
  "too_many_digits rt ds =
     (640 < length (filter is_digit ds)
      \<and> 0 < int_max_str_digits rt
      \<and> int_max_str_digits rt < length (filter is_digit ds))"

definition int_literal :: "env \<Rightarrow> string \<Rightarrow> nat option" where
  "int_literal rt ds =
     (case int_digits False 0 ds of
        None \<Rightarrow> None
      | Some n \<Rightarrow> if too_many_digits rt ds then None else Some n)"

text \<open>\<open>int(b)\<close> for bytes \<open>b\<close>: white space around the literal is dropped, a sign may lead.\<close>

definition py_int :: "env \<Rightarrow> string \<Rightarrow> exc + int" where
  "py_int rt b =
     (case strip b of
        [] \<Rightarrow> Inl InvalidLiteral
      | c # cs \<Rightarrow>
          if c = CHR ''-'' then
            (case int_literal rt cs of None \<Rightarrow> Inl InvalidLiteral | Some n \<Rightarrow> Inr (- int n))
          else if c = CHR ''+'' then
            (case int_literal rt cs of None \<Rightarrow> Inl InvalidLiteral | Some n \<Rightarrow> Inr (int n))
          else
            (case int_literal rt (c # cs) of None \<Rightarrow> Inl InvalidLiteral | Some n \<Rightarrow> Inr (int n)))"

text \<open>\<open>f"{n}"\<close> for a length \<open>n\<close>: its decimal digits.\<close>

definition digit_char :: "nat \<Rightarrow> char" where
  "digit_char d = ''0123456789'' ! d"

fun dec :: "nat \<Rightarrow> string" where
  "dec n = (if n < 10 then [digit_char n] else dec (n div 10) @ [digit_char (n mod 10)])"

declare dec.simps [simp del]

section \<open>Framed transport\<close>

subsection \<open>Writing a frame (\<open>_send\<close> of both programs)\<close>

text \<open>
  \<open>body = json.dumps(payload).encode("utf-8")\<close>, then the header
  \<open>f"Content-Length: {len(body)}\r\n\r\n"\<close> and the body are written and flushed. The
  result is the bytes written to the stream.
\<close>

definition frame :: "string \<Rightarrow> string" where
  "frame body = ''Content-Length: '' @ dec (length body) @ CRLF @ CRLF @ body"

definition send :: "env \<Rightarrow> json \<Rightarrow> string" where
  "send rt payload = frame (dumps rt payload)"

subsection \<open>Reading from a pipe\<close>

text \<open>
  A pipe is the bytes not yet read, with a flag \<open>eof\<close>: the writer has closed its end
  (nothing more will come). \<open>readline()\<close> returns the bytes up to and including the first
  line feed; with no line feed in the pipe it returns what is left at end of stream (the
  empty line when nothing is left) and waits otherwise: \<open>None\<close>.
\<close>

definition readline :: "bool \<Rightarrow> string \<Rightarrow> (string \<times> string) option" where
  "readline eof s =
     (case dropWhile (\<lambda>c. c \<noteq> LF) s of
        [] \<Rightarrow> if eof then Some (s, []) else None
      | c # r \<Rightarrow> Some (takeWhile (\<lambda>c. c \<noteq> LF) s @ [c], r))"

text \<open>
  Allocating a \<open>bytes\<close> object of \<open>k\<close> bytes. The empty object exists already, so asking
  for it never fails.
\<close>

definition allocate :: "env \<Rightarrow> nat \<Rightarrow> exc option" where
  "allocate rt k = (if k = 0 then None else alloc_error rt k)"

text \<open>
  \<open>read(n)\<close> of a buffered reader. The argument becomes a signed 64-bit integer, which
  raises \<open>OverflowError\<close> outside of -2^63 .. 2^63 - 1, and no \<open>bytes\<close> object has 2^63 - 1
  bytes, which raises \<open>OverflowError\<close> too; a length below -1 is a \<open>ValueError\<close>; \<open>n = -1\<close>
  reads everything up to end of stream. Otherwise the reader allocates the \<open>n\<close> bytes of
  its result, which can fail, before it fills them: with \<open>n\<close> bytes, or with fewer at end
  of stream.
\<close>

definition read :: "env \<Rightarrow> bool \<Rightarrow> int \<Rightarrow> string \<Rightarrow> (string \<times> string) outcome" where
  "read rt eof n s =
     (if n < - 9223372036854775808 \<or> 9223372036854775807 \<le> n then Raise OverflowError
      else if n < - 1 then Raise (ValueError ''read length must be non-negative or -1'')
      else if n = - 1 then
        (if eof then
           (case allocate rt (length s) of Some e \<Rightarrow> Raise e | None \<Rightarrow> Return (s, []))
         else Blocks)
      else
        (case allocate rt (nat n) of
           Some e \<Rightarrow> Raise e
         | None \<Rightarrow>
             if nat n \<le> length s then Return (take (nat n) s, drop (nat n) s)
             else if eof then Return (s, [])
             else Blocks))"

subsection \<open>The header loop shared by \<open>_read\<close> and \<open>_read_message\<close>\<close>

text \<open>
  Both readers run the same loop over the header lines, with \<open>content_length\<close> starting
  as \<open>None\<close>; they differ in what they do when it ends. The loop ends by the end of the
  stream (\<open>HEof\<close>: \<open>readline\<close> returned the empty line), by the blank line (\<open>HDone\<close>, with
  \<open>content_length\<close> and the bytes that follow), by an exception of \<open>int()\<close>, or never.
\<close>

datatype hdr = HBlocks | HEof | HRaise exc string | HDone "int option" string

function read_headers :: "env \<Rightarrow> bool \<Rightarrow> int option \<Rightarrow> string \<Rightarrow> hdr" where
  "read_headers rt eof content_length s =
     (case readline eof s of
        None \<Rightarrow> HBlocks
      | Some (line, rest) \<Rightarrow>
          if line = [] then HEof
          else if line = CRLF then HDone content_length rest
          else if startswith (lower line) ''content-length:'' then
            (case after_colon line of
               Inl e \<Rightarrow> HRaise e rest
             | Inr v \<Rightarrow>
                 (case py_int rt (strip v) of
                    Inl e \<Rightarrow> HRaise e rest
                  | Inr n \<Rightarrow> read_headers rt eof (Some n) rest))
          else read_headers rt eof content_length rest)"
  by pat_completeness auto
termination
proof -
  have shorter: "length rest < length s"
    if "readline eof s = Some (line, rest)" and "line \<noteq> []" for eof s line rest
  proof -
    have "length (dropWhile (\<lambda>c. c \<noteq> LF) s) \<le> length s"
      by (rule length_dropWhile_le)
    with that show ?thesis
      by (auto simp: readline_def split: list.splits if_splits)
  qed
  show ?thesis
    by (relation "measure (\<lambda>(rt, eof, cl, s). length s)") (auto dest: shorter)
qed

declare read_headers.simps [simp del]

subsection \<open>The client's \<open>_read\<close>\<close>

text \<open>
  \<open>McpStdioClient._read\<close> (llm_client.py). The result comes with the bytes left in the
  pipe. (\<open>self.proc.stdout\<close> is never \<open>None\<close>: the process is started with a pipe.)
\<close>

definition client_read :: "env \<Rightarrow> bool \<Rightarrow> string \<Rightarrow> json outcome \<times> string" where
  "client_read rt eof s =
     (case read_headers rt eof None s of
        HBlocks \<Rightarrow> (Blocks, s)
      | HEof \<Rightarrow> (Raise (RuntimeError (JStr ''MCP server closed stdout'')), [])
      | HRaise e rest \<Rightarrow> (Raise e, rest)
      | HDone None rest \<Rightarrow>
          (Raise (RuntimeError (JStr ''Invalid MCP frame: missing Content-Length'')), rest)
      | HDone (Some n) rest \<Rightarrow>
          (case read rt eof n rest of
             Blocks \<Rightarrow> (Blocks, s)
           | Raise e \<Rightarrow> (Raise e, rest)
           | Return (body, rest') \<Rightarrow>
               (case loads rt body of
                  Inl e \<Rightarrow> (Raise e, rest')
                | Inr v \<Rightarrow> (Return v, rest'))))"

subsection \<open>The server's \<open>_read_message\<close>\<close>

text \<open>
  \<open>_read_message\<close> (mcp_server.py) returns \<open>None\<close> where the client raises, and also when
  the body it read is empty. Its result is a JSON value or \<open>None\<close>, which is \<open>JNull\<close>: a
  body that holds the document \<open>null\<close> also makes it return \<open>None\<close>.
\<close>

definition read_message :: "env \<Rightarrow> bool \<Rightarrow> string \<Rightarrow> json outcome \<times> string" where
  "read_message rt eof s =
     (case read_headers rt eof None s of
        HBlocks \<Rightarrow> (Blocks, s)
      | HEof \<Rightarrow> (Return JNull, [])
      | HRaise e rest \<Rightarrow> (Raise e, rest)
      | HDone None rest \<Rightarrow> (Return JNull, rest)
      | HDone (Some n) rest \<Rightarrow>
          (case read rt eof n rest of
             Blocks \<Rightarrow> (Blocks, s)
           | Raise e \<Rightarrow> (Raise e, rest)
           | Return (body, rest') \<Rightarrow>
               if body = [] then (Return JNull, rest')
               else
                 (case loads rt body of
                    Inl e \<Rightarrow> (Raise e, rest')
                  | Inr v \<Rightarrow> (Return v, rest'))))"

section \<open>The mock services (services.py)\<close>

text \<open>
  Each service takes the JSON value the dispatcher hands it and returns a dictionary, or
  raises where the interpreter would: \<open>startswith\<close> exists on a \<open>str\<close> only, \<open>>\<close> compares
  numbers only (\<open>True\<close> and \<open>False\<close> count as 1 and 0), and a \<open>list\<close> or \<open>dict\<close> cannot be
  hashed, so it can be neither looked up in a set nor used as a key.
\<close>

definition diagnostics :: "env \<Rightarrow> json \<Rightarrow> exc + json" where
  "diagnostics rt obd_code =
     (case obd_code of
        JStr code \<Rightarrow>
          Inr (JObj
            [(''service'', JStr ''Diagnostics''),
             (''timestamp'', JStr (utcnow rt @ ''Z'')),
             (''obd_code'', obd_code),
             (''severity'', JStr (if startswith code ''P03'' then ''medium'' else ''low'')),
             (''summary'', JStr (if code = ''P0301'' then ''Engine misfire detected on cylinder 1''
                                 else ''Generic diagnostic result''))])
      | _ \<Rightarrow> Inl AttributeError)"

definition navigation :: "json \<Rightarrow> exc + json" where
  "navigation destination =
     Inr (JObj
       [(''service'', JStr ''Navigation''),
        (''destination'', destination),
        (''distance_km'', JInt 24),
        (''eta_minutes'', JInt 38),
        (''route_risk_zone'', JStr ''moderate'')])"

definition weather :: "json \<Rightarrow> exc + json" where
  "weather route_region =
     Inr (JObj
       [(''service'', JStr ''Weather''),
        (''region'', route_region),
        (''condition'', JStr ''heavy rain''),
        (''visibility'', JStr ''reduced''),
        (''risk_level'', JStr ''high'')])"

text \<open>\<open>v > n\<close> for a JSON value \<open>v\<close> and an integer \<open>n\<close>.\<close>

definition greater_than :: "json \<Rightarrow> int \<Rightarrow> exc + bool" where
  "greater_than v n =
     (case v of
        JInt m \<Rightarrow> Inr (m > n)
      | JBool b \<Rightarrow> Inr ((if b then 1 else 0) > n)
      | _ \<Rightarrow> Inl TypeError)"

definition maintenance :: "json \<Rightarrow> exc + json" where
  "maintenance current_mileage =
     (case greater_than current_mileage 40000 of
        Inl e \<Rightarrow> Inl e
      | Inr gt \<Rightarrow>
          (let overdue = (if gt then [JStr ''brake fluid'', JStr ''air filter''] else []) in
           Inr (JObj
             [(''service'', JStr ''Maintenance''),
              (''mileage'', current_mileage),
              (''overdue_items'', JArr overdue),
              (''recommended_window_days'', JInt (if overdue \<noteq> [] then 7 else 30))])))"

definition hashable :: "json \<Rightarrow> bool" where
  "hashable v = (case v of JArr _ \<Rightarrow> False | JObj _ \<Rightarrow> False | _ \<Rightarrow> True)"

definition emergency :: "json \<Rightarrow> exc + json" where
  "emergency risk_level =
     (if \<not> hashable risk_level then Inl TypeError
      else
        Inr (JObj
          [(''service'', JStr ''Emergency''),
           (''risk_level'', risk_level),
           (''recommendation'',
              JStr (if risk_level \<in> set [JStr ''high'', JStr ''severe'']
                    then ''Avoid travel and keep roadside assistance on standby''
                    else ''Drive with caution and monitor conditions''))]))"

definition knowledge :: "json \<Rightarrow> exc + json" where
  "knowledge topic =
     (if \<not> hashable topic then Inl TypeError
      else
        Inr (JObj
          [(''service'', JStr ''Knowledge''),
           (''topic'', topic),
           (''explanation'',
              JStr (case map_of
                      [(JStr ''P0301'', ''Misfire in cylinder 1 can impact fuel economy and emissions.''),
                       (JStr ''heavy rain'',
                        ''Reduced visibility and braking performance increase stopping distance.'')]
                      topic of
                      None \<Rightarrow> ''General automotive guidance.''
                    | Some e \<Rightarrow> e))]))"

definition vehicle_info :: "json \<Rightarrow> exc + json" where
  "vehicle_info vin =
     Inr (JObj
       [(''service'', JStr ''Vehicle Info''),
        (''vin'', vin),
        (''model'', JStr ''Demo EV Sedan''),
        (''year'', JInt 2022),
        (''mileage'', JInt 42000)])"

section \<open>The server (mcp_server.py)\<close>

subsection \<open>The tool table\<close>

text \<open>
  Every entry of \<open>TOOLS\<close> has the same shape: a description and an object schema with
  one optional property. \<open>object_schema\<close> writes the schema of a property and its type.
\<close>

definition PROTOCOL_VERSION :: string where
  "PROTOCOL_VERSION = ''2024-11-05''"

definition object_schema :: "string \<Rightarrow> string \<Rightarrow> json" where
  "object_schema property ty =
     JObj [(''type'', JStr ''object''),
           (''properties'', JObj [(property, JObj [(''type'', JStr ty)])]),
           (''required'', JArr [])]"

definition TOOLS :: "(string \<times> (string \<times> json) list) list" where
  "TOOLS =
     [(''diagnostics'',
         [(''description'', JStr ''Run diagnostics for a given OBD-II trouble code.''),
          (''inputSchema'', object_schema ''obd_code'' ''string'')]),
      (''navigation'',
         [(''description'', JStr ''Get route guidance for a destination.''),
          (''inputSchema'', object_schema ''destination'' ''string'')]),
      (''weather'',
         [(''description'', JStr ''Get weather conditions and risk for a region.''),
          (''inputSchema'', object_schema ''route_region'' ''string'')]),
      (''maintenance'',
         [(''description'', JStr ''Get maintenance recommendations based on mileage.''),
          (''inputSchema'', object_schema ''current_mileage'' ''integer'')]),
      (''emergency'',
         [(''description'', JStr ''Get emergency driving recommendation for a risk level.''),
          (''inputSchema'', object_schema ''risk_level'' ''string'')]),
      (''knowledge'',
         [(''description'', JStr ''Get automotive knowledge/explanation for a topic or code.''),
          (''inputSchema'', object_schema ''topic'' ''string'')]),
      (''vehicle_info'',
         [(''description'', JStr ''Get current vehicle profile details.''),
          (''inputSchema'', object_schema ''vin'' ''string'')])]"

subsection \<open>\<open>_tool_call\<close>\<close>

text \<open>\<open>arguments.get(key, default)\<close>: only a \<open>dict\<close> has \<open>get\<close>.\<close>

definition arguments_get :: "json \<Rightarrow> string \<Rightarrow> json \<Rightarrow> exc + json" where
  "arguments_get arguments k dflt =
     (case arguments of
        JObj d \<Rightarrow> Inr (dict_get_default d k dflt)
      | _ \<Rightarrow> Inl AttributeError)"

text \<open>Calling a service with the argument looked up, when the lookup did not raise.\<close>

definition call_with :: "exc + json \<Rightarrow> (json \<Rightarrow> exc + json) \<Rightarrow> exc + json" where
  "call_with a service = (case a of Inl e \<Rightarrow> Inl e | Inr v \<Rightarrow> service v)"

definition text_content :: "env \<Rightarrow> json \<Rightarrow> json" where
  "text_content rt result =
     JObj [(''content'', JArr [JObj [(''type'', JStr ''text''), (''text'', JStr (dumps rt result))]]),
           (''isError'', JBool False)]"

definition tool_call :: "env \<Rightarrow> json \<Rightarrow> json \<Rightarrow> exc + json" where
  "tool_call rt name arguments =
     (case
        (if name = JStr ''diagnostics'' then
           call_with (arguments_get arguments ''obd_code'' (JStr ''P0301'')) (diagnostics rt)
         else if name = JStr ''navigation'' then
           call_with (arguments_get arguments ''destination'' (JStr ''Office'')) navigation
         else if name = JStr ''weather'' then
           call_with (arguments_get arguments ''route_region'' (JStr ''city'')) weather
         else if name = JStr ''maintenance'' then
           call_with (arguments_get arguments ''current_mileage'' (JInt 42000)) maintenance
         else if name = JStr ''emergency'' then
           call_with (arguments_get arguments ''risk_level'' (JStr ''low'')) emergency
         else if name = JStr ''knowledge'' then
           call_with (arguments_get arguments ''topic'' (JStr ''P0301'')) knowledge
         else if name = JStr ''vehicle_info'' then
           call_with (arguments_get arguments ''vin'' (JStr ''DEMO-VIN-123'')) vehicle_info
         else Inl (ValueError (''Unknown tool: '' @ format_value rt name)))
      of
        Inl e \<Rightarrow> Inl e
      | Inr result \<Rightarrow> Inr (text_content rt result))"

subsection \<open>One turn of the loop of \<open>main\<close>\<close>

text \<open>
  \<open>handle\<close> is the body of the loop for the request just read: the payload it sends
  (\<open>None\<close> when it sends nothing), or the exception that ends the process. Every \<open>_send\<close>
  stands under \<open>if request_id is not None\<close>: \<open>reply_if\<close>.
\<close>

definition reply_if :: "json \<Rightarrow> json \<Rightarrow> json option" where
  "reply_if request_id payload = (if request_id \<noteq> JNull then Some payload else None)"

definition result_response :: "json \<Rightarrow> json \<Rightarrow> json" where
  "result_response request_id result =
     JObj [(''jsonrpc'', JStr ''2.0''), (''id'', request_id), (''result'', result)]"

definition error_response :: "json \<Rightarrow> int \<Rightarrow> string \<Rightarrow> json" where
  "error_response request_id code message =
     JObj [(''jsonrpc'', JStr ''2.0''), (''id'', request_id),
           (''error'', JObj [(''code'', JInt code), (''message'', JStr message)])]"

text \<open>
  \<open>params.get("name", "")\<close> and \<open>params.get("arguments", {}) or {}\<close>, then \<open>_tool_call\<close>:
  the part of the \<open>tools/call\<close> branch that stands inside \<open>try\<close>.
\<close>

definition call_from_params :: "env \<Rightarrow> json \<Rightarrow> exc + json" where
  "call_from_params rt params =
     (case params of
        JObj p \<Rightarrow>
          tool_call rt (dict_get_default p ''name'' (JStr []))
            (let a = dict_get_default p ''arguments'' (JObj []) in if truthy a then a else JObj [])
      | _ \<Rightarrow> Inl AttributeError)"

text \<open>The results of \<open>initialize\<close> and of \<open>tools/list\<close>, which depend on nothing.\<close>

definition initialize_result :: json where
  "initialize_result =
     JObj [(''protocolVersion'', JStr PROTOCOL_VERSION),
           (''capabilities'', JObj [(''tools'', JObj [])]),
           (''serverInfo'', JObj [(''name'', JStr ''automotive-playground''),
                                  (''version'', JStr ''1.0.0'')])]"

definition tools_listing :: json where
  "tools_listing =
     JObj [(''tools'',
        JArr (map (\<lambda>(name, spec).
                    JObj [(''name'', JStr name),
                          (''description'', dict_get spec ''description''),
                          (''inputSchema'', dict_get spec ''inputSchema'')])
               TOOLS))]"

definition handle :: "env \<Rightarrow> json \<Rightarrow> exc + json option" where
  "handle rt request =
     (case request of
        JObj d \<Rightarrow>
          (let method = dict_get d ''method'';
               request_id = dict_get d ''id''
           in
             if method = JStr ''initialize'' then
               Inr (reply_if request_id (result_response request_id initialize_result))
             else if method = JStr ''notifications/initialized'' then Inr None
             else if method = JStr ''tools/list'' then
               Inr (reply_if request_id (result_response request_id tools_listing))
             else if method = JStr ''tools/call'' then
               (case call_from_params rt (dict_get_default d ''params'' (JObj [])) of
                  Inr result \<Rightarrow> Inr (reply_if request_id (result_response request_id result))
                | Inl e \<Rightarrow>
                    Inr (reply_if request_id (error_response request_id (- 32000) (str_exc rt e))))
             else
               Inr (reply_if request_id
                 (error_response request_id (- 32601)
                   (''Method not found: '' @ format_value rt method))))
      | _ \<Rightarrow> Inl AttributeError)"

subsection \<open>\<open>main\<close>\<close>

text \<open>
  The server as a function of the bytes in its standard input: what it writes to its
  standard output, and how it ends: \<open>Exited\<close> when \<open>_read_message\<close> returned \<open>None\<close>
  (the loop breaks and the process exits), \<open>Crashed\<close> on an exception that nothing
  catches, \<open>Waiting\<close> when it blocks in a read, with the bytes it has not consumed.
\<close>

datatype status = Waiting string | Exited | Crashed exc

function main :: "env \<Rightarrow> bool \<Rightarrow> string \<Rightarrow> string \<times> status" where
  "main rt eof s =
     (case read_message rt eof s of
        (Blocks, _) \<Rightarrow> ([], Waiting s)
      | (Raise e, _) \<Rightarrow> ([], Crashed e)
      | (Return request, rest) \<Rightarrow>
          if request = JNull then ([], Exited)
          else
            (case handle rt request of
               Inl e \<Rightarrow> ([], Crashed e)
             | Inr reply \<Rightarrow>
                 (case main rt eof rest of
                    (out, st) \<Rightarrow> ((case reply of None \<Rightarrow> [] | Some payload \<Rightarrow> send rt payload) @ out, st))))"
  by pat_completeness auto
termination
proof -
  have shorter: "length rest < length s"
    if "readline eof s = Some (line, rest)" and "line \<noteq> []" for eof s line rest
  proof -
    have "length (dropWhile (\<lambda>c. c \<noteq> LF) s) \<le> length s"
      by (rule length_dropWhile_le)
    with that show ?thesis
      by (auto simp: readline_def split: list.splits if_splits)
  qed
  have headers: "read_headers rt eof cl s = HDone c rest \<Longrightarrow> length rest < length s"
    for rt eof cl s c rest
  proof (induction rt eof cl s rule: read_headers.induct)
    case (1 rt eof cl s)
    from "1.prems" obtain line r where rl: "readline eof s = Some (line, r)"
      by (subst (asm) read_headers.simps) (auto split: option.splits)
    show ?case
    proof (cases "line = [] \<or> line = CRLF")
      case True
      with "1.prems" rl shorter [OF rl] show ?thesis
        by (subst (asm) read_headers.simps) (auto split: if_splits)
    next
      case False
      then have ne: "line \<noteq> []" and nb: "line \<noteq> CRLF" by auto
      have r: "length r < length s" using shorter [OF rl ne] .
      show ?thesis
      proof (cases "startswith (lower line) ''content-length:''")
        case True
        with "1.prems" rl ne nb obtain v n where
          v: "after_colon line = Inr v" and n: "py_int rt (strip v) = Inr n"
          and h: "read_headers rt eof (Some n) r = HDone c rest"
          by (subst (asm) read_headers.simps) (auto split: sum.splits)
        from "1.IH"(1) [OF rl refl ne nb True v n h] r show ?thesis by simp
      next
        case False
        with "1.prems" rl ne nb have h: "read_headers rt eof cl r = HDone c rest"
          by (subst (asm) read_headers.simps) auto
        from "1.IH"(2) [OF rl refl ne nb False h] r show ?thesis by simp
      qed
    qed
  qed
  have message: "length rest < length s"
    if "read_message rt eof s = (Return v, rest)" and "v \<noteq> JNull" for rt eof s v rest
    using that
    by (auto simp: read_message_def read_def split: hdr.splits option.splits outcome.splits
          if_splits sum.splits prod.splits dest!: headers)
  show ?thesis
    by (relation "measure (\<lambda>(rt, eof, s). length s)") (auto dest: message [OF sym])
qed

declare main.simps [simp del]

section \<open>The client (llm_client.py)\<close>

subsection \<open>A connection: the client and its child process\<close>

text \<open>
  \<open>McpStdioClient.__init__\<close> starts the server as a child process with pipes to its
  standard input and output, and sets \<open>_next_id\<close> to 1. A connection is
  \<^item> \<open>next_id\<close>: the counter \<open>_next_id\<close>;
  \<^item> \<open>server\<close>: the child process, \<open>main\<close> of mcp_server.py: blocked in a read with the
    bytes of its input it has not consumed, or gone;
  \<^item> \<open>stdout_pipe\<close>: the bytes the server has written and the client has not read;
  \<^item> \<open>sent\<close>: the payloads the client has written so far, first to last (a record of the
    traffic; the code keeps no such list).
  The server runs as soon as it has input: it consumes the frames in its pipe, writes its
  replies and blocks again. Its input is never at end of stream: the client does not close it.
\<close>

record world =
  next_id :: int
  server :: status
  stdout_pipe :: string
  sent :: "json list"

definition connect :: world where
  "connect = \<lparr>next_id = 1, server = Waiting [], stdout_pipe = [], sent = []\<rparr>"

text \<open>
  \<open>McpStdioClient._send\<close>: the frame goes into the server's input, and the server runs.
  Writing to a process that is gone raises \<open>BrokenPipeError\<close>.
\<close>

definition client_send :: "env \<Rightarrow> world \<Rightarrow> json \<Rightarrow> unit outcome \<times> world" where
  "client_send rt w payload =
     (case server w of
        Waiting pending \<Rightarrow>
          (case main rt False (pending @ send rt payload) of
             (out, st) \<Rightarrow>
               (Return (),
                w\<lparr>server := st, stdout_pipe := stdout_pipe w @ out, sent := sent w @ [payload]\<rparr>))
      | _ \<Rightarrow> (Raise BrokenPipeError, w))"

text \<open>
  \<open>McpStdioClient._read\<close> on the connection: the server's output is at end of stream
  once the server is gone.
\<close>

definition client_recv :: "env \<Rightarrow> world \<Rightarrow> json outcome \<times> world" where
  "client_recv rt w =
     (case client_read rt (case server w of Waiting _ \<Rightarrow> False | _ \<Rightarrow> True) (stdout_pipe w) of
        (r, rest) \<Rightarrow> (r, w\<lparr>stdout_pipe := rest\<rparr>))"

subsection \<open>\<open>request\<close> and \<open>notify\<close>\<close>

text \<open>
  The payloads. \<open>params\<close> is a JSON value, \<open>JNull\<close> standing for Python's \<open>None\<close>: the key
  \<open>params\<close> is added only \<open>if params is not None\<close>.
\<close>

definition request_payload :: "int \<Rightarrow> string \<Rightarrow> json \<Rightarrow> json" where
  "request_payload req_id method params =
     JObj ([(''jsonrpc'', JStr ''2.0''), (''id'', JInt req_id), (''method'', JStr method)]
           @ (if params \<noteq> JNull then [(''params'', params)] else []))"

definition notify_payload :: "string \<Rightarrow> json \<Rightarrow> json" where
  "notify_payload method params =
     JObj ([(''jsonrpc'', JStr ''2.0''), (''method'', JStr method)]
           @ (if params \<noteq> JNull then [(''params'', params)] else []))"

text \<open>
  The first part of \<open>request\<close>, up to \<open>response = self._read()\<close>: the counter is read and
  incremented, the payload is sent, one frame is read. The result is that frame.
\<close>

definition request_response :: "env \<Rightarrow> world \<Rightarrow> string \<Rightarrow> json \<Rightarrow> json outcome \<times> world" where
  "request_response rt w method params =
     (let req_id = next_id w;
          w1 = w\<lparr>next_id := req_id + 1\<rparr>;
          payload = request_payload req_id method params
      in
        case client_send rt w1 payload of
          (Return _, w2) \<Rightarrow> client_recv rt w2
        | (Raise e, w2) \<Rightarrow> (Raise e, w2)
        | (Blocks, w2) \<Rightarrow> (Blocks, w2))"

text \<open>
  The rest of \<open>request\<close>: \<open>if "error" in response: raise RuntimeError(...)\<close>, else
  \<open>return response["result"]\<close>. A response that is not a dictionary ends in \<open>TypeError\<close>
  either way (in the test \<open>in\<close>, or in the subscript that follows it).
\<close>

definition response_result :: "json \<Rightarrow> json outcome" where
  "response_result response =
     (case response of
        JObj d \<Rightarrow>
          (case map_of d ''error'' of
             Some err \<Rightarrow>
               (case err of
                  JObj e \<Rightarrow> Raise (RuntimeError (dict_get_default e ''message'' (JStr ''Unknown MCP error'')))
                | _ \<Rightarrow> Raise AttributeError)
           | None \<Rightarrow>
               (case map_of d ''result'' of
                  Some r \<Rightarrow> Return r
                | None \<Rightarrow> Raise KeyError))
      | _ \<Rightarrow> Raise TypeError)"

definition request :: "env \<Rightarrow> world \<Rightarrow> string \<Rightarrow> json \<Rightarrow> json outcome \<times> world" where
  "request rt w method params =
     (case request_response rt w method params of
        (Return response, w') \<Rightarrow> (response_result response, w')
      | (Raise e, w') \<Rightarrow> (Raise e, w')
      | (Blocks, w') \<Rightarrow> (Blocks, w'))"

definition notify :: "env \<Rightarrow> world \<Rightarrow> string \<Rightarrow> json \<Rightarrow> unit outcome \<times> world" where
  "notify rt w method params = client_send rt w (notify_payload method params)"

subsection \<open>Sequences of calls\<close>

text \<open>
  A caller that makes one call after the other on a connection, going on after a call
  that raised. A call that blocks never returns, so nothing is called after it.
  \<open>run_calls\<close> gives the connection at the end; \<open>run_requests\<close> is the same for requests
  only and lists, for every \<open>request\<close> made, the id it sent and the frame it read.
\<close>

datatype call = Request string json | Notify string json

fun run_calls :: "env \<Rightarrow> world \<Rightarrow> call list \<Rightarrow> world" where
  "run_calls rt w [] = w"
| "run_calls rt w (Request method params # cs) =
     (case request rt w method params of
        (Blocks, w') \<Rightarrow> w'
      | (_, w') \<Rightarrow> run_calls rt w' cs)"
| "run_calls rt w (Notify method params # cs) =
     (case notify rt w method params of
        (Blocks, w') \<Rightarrow> w'
      | (_, w') \<Rightarrow> run_calls rt w' cs)"

fun run_requests :: "env \<Rightarrow> world \<Rightarrow> (string \<times> json) list \<Rightarrow> (int \<times> json outcome) list" where
  "run_requests rt w [] = []"
| "run_requests rt w ((method, params) # rs) =
     (case request_response rt w method params of
        (Blocks, w') \<Rightarrow> [(next_id w, Blocks)]
      | (r, w') \<Rightarrow> (next_id w, r) # run_requests rt w' rs)"

text \<open>The ids of the requests among payloads: a notification has no key \<open>id\<close>.\<close>

definition payload_ids :: "json list \<Rightarrow> json list" where
  "payload_ids ps =
     concat (map (\<lambda>p. case p of JObj d \<Rightarrow> (case map_of d ''id'' of None \<Rightarrow> [] | Some i \<Rightarrow> [i]) | _ \<Rightarrow> []) ps)"

subsection \<open>The tool-calling loop\<close>

text \<open>
  The chat-completion service is a parameter: \<open>api_key\<close> is the environment variable
  \<open>OPENAI_API_KEY\<close>, \<open>post\<close> what the HTTP request does with a payload: the decoded
  response, an exception, or no return. Every call of one run posts a different payload
  (the conversation in it grows), so a function of the payload covers every behaviour of
  the service.
\<close>

record openai =
  api_key :: "string option"
  post :: "json \<Rightarrow> json outcome"

definition SYSTEM_PROMPT :: string where
  "SYSTEM_PROMPT =
     ''You are an automotive assistant. Use provided tools when needed, and return clear, safe advice.''"

definition openai_chat :: "openai \<Rightarrow> string \<Rightarrow> json list \<Rightarrow> json list \<Rightarrow> json outcome" where
  "openai_chat ai model messages tools =
     (if (case api_key ai of None \<Rightarrow> True | Some k \<Rightarrow> k = []) then
        Raise (RuntimeError (JStr ''OPENAI_API_KEY is required''))
      else
        post ai (JObj [(''model'', JStr model), (''messages'', JArr messages),
                       (''tools'', JArr tools), (''tool_choice'', JStr ''auto'')]))"

text \<open>
  Subscripts and iteration on a JSON value. \<open>v["key"]\<close> needs a dictionary with the key;
  \<open>v[0]\<close> a non-empty list or string; a \<open>for\<close> loop goes through the items of a list, the
  keys of a dictionary or the characters of a string. (A character is a byte here: the
  loops below raise on the first item that is a string, whatever it is.)
\<close>

definition subscript :: "json \<Rightarrow> string \<Rightarrow> exc + json" where
  "subscript v k =
     (case v of
        JObj d \<Rightarrow> (case map_of d k of None \<Rightarrow> Inl KeyError | Some x \<Rightarrow> Inr x)
      | _ \<Rightarrow> Inl TypeError)"

definition first_item :: "json \<Rightarrow> exc + json" where
  "first_item v =
     (case v of
        JArr xs \<Rightarrow> (case xs of [] \<Rightarrow> Inl IndexError | x # _ \<Rightarrow> Inr x)
      | JStr s \<Rightarrow> (case s of [] \<Rightarrow> Inl IndexError | c # _ \<Rightarrow> Inr (JStr [c]))
      | JObj d \<Rightarrow> Inl KeyError
      | _ \<Rightarrow> Inl TypeError)"

definition iterate :: "json \<Rightarrow> exc + json list" where
  "iterate v =
     (case v of
        JArr xs \<Rightarrow> Inr xs
      | JObj d \<Rightarrow> Inr (map (\<lambda>(k, _). JStr k) d)
      | JStr s \<Rightarrow> Inr (map (\<lambda>c. JStr [c]) s)
      | _ \<Rightarrow> Inl TypeError)"

text \<open>\<open>v.get(key, default)\<close> on a JSON value.\<close>

definition value_get :: "json \<Rightarrow> string \<Rightarrow> json \<Rightarrow> exc + json" where
  "value_get v k dflt =
     (case v of
        JObj d \<Rightarrow> Inr (dict_get_default d k dflt)
      | _ \<Rightarrow> Inl AttributeError)"

text \<open>\<open>response["choices"][0]["message"]\<close>.\<close>

definition message_of :: "json \<Rightarrow> exc + json" where
  "message_of response =
     (case subscript response ''choices'' of
        Inl e \<Rightarrow> Inl e
      | Inr choices \<Rightarrow>
          (case first_item choices of
             Inl e \<Rightarrow> Inl e
           | Inr choice \<Rightarrow> subscript choice ''message''))"

text \<open>
  The inner loop over \<open>tool_result.get("content", [])\<close> that concatenates the text items.
\<close>

fun collect_text :: "json list \<Rightarrow> string \<Rightarrow> exc + string" where
  "collect_text [] tool_text = Inr tool_text"
| "collect_text (item # items) tool_text =
     (case item of
        JObj d \<Rightarrow>
          if dict_get d ''type'' = JStr ''text'' then
            (case dict_get_default d ''text'' (JStr []) of
               JStr t \<Rightarrow> collect_text items (tool_text @ t)
             | _ \<Rightarrow> Inl TypeError)
          else collect_text items tool_text
      | _ \<Rightarrow> Inl AttributeError)"

text \<open>
  One turn of \<open>for tc in tool_calls\<close>: the tool is called through the connection and the
  result is the message appended to the conversation.
\<close>

definition tool_message :: "env \<Rightarrow> world \<Rightarrow> json \<Rightarrow> json outcome \<times> world" where
  "tool_message rt w tc =
     (case subscript tc ''function'' of
        Inl e \<Rightarrow> (Raise e, w)
      | Inr function \<Rightarrow>
     (case subscript function ''name'' of
        Inl e \<Rightarrow> (Raise e, w)
      | Inr tool_name \<Rightarrow>
     (case value_get function ''arguments'' (JStr ''{}'') of
        Inl e \<Rightarrow> (Raise e, w)
      | Inr text \<Rightarrow>
     (case (case text of JStr s \<Rightarrow> loads rt s | _ \<Rightarrow> Inl TypeError) of
        Inl e \<Rightarrow> (Raise e, w)
      | Inr arguments \<Rightarrow>
     (case request rt w ''tools/call'' (JObj [(''name'', tool_name), (''arguments'', arguments)]) of
        (Raise e, w') \<Rightarrow> (Raise e, w')
      | (Blocks, w') \<Rightarrow> (Blocks, w')
      | (Return tool_result, w') \<Rightarrow>
     (case value_get tool_result ''content'' (JArr []) of
        Inl e \<Rightarrow> (Raise e, w')
      | Inr content \<Rightarrow>
     (case iterate content of
        Inl e \<Rightarrow> (Raise e, w')
      | Inr items \<Rightarrow>
     (case collect_text items [] of
        Inl e \<Rightarrow> (Raise e, w')
      | Inr tool_text \<Rightarrow>
     (case subscript tc ''id'' of
        Inl e \<Rightarrow> (Raise e, w')
      | Inr tool_call_id \<Rightarrow>
          (Return (JObj [(''role'', JStr ''tool''), (''tool_call_id'', tool_call_id),
                         (''name'', tool_name), (''content'', JStr tool_text)]), w'))))))))))"

fun run_tool_calls :: "env \<Rightarrow> world \<Rightarrow> json list \<Rightarrow> json list \<Rightarrow> unit outcome \<times> world \<times> json list" where
  "run_tool_calls rt w [] messages = (Return (), w, messages)"
| "run_tool_calls rt w (tc # tcs) messages =
     (case tool_message rt w tc of
        (Raise e, w') \<Rightarrow> (Raise e, w', messages)
      | (Blocks, w') \<Rightarrow> (Blocks, w', messages)
      | (Return m, w') \<Rightarrow> run_tool_calls rt w' tcs (messages @ [m]))"

text \<open>
  The body of \<open>for _ in range(8)\<close>, one iteration: the service is asked, its message is
  appended to the conversation, and either the function returns the content of a message
  without tool calls (\<open>Final\<close>), or the tools asked for are called one after the other and
  the loop goes to its next iteration (\<open>Next\<close>), or something raises (\<open>Raised\<close>) or never
  returns (\<open>Stuck\<close>). The iteration also gives the connection and the conversation as it
  leaves them.
\<close>

datatype turn = Final json | Raised exc | Stuck | Next

definition iteration ::
  "env \<Rightarrow> openai \<Rightarrow> string \<Rightarrow> json list \<Rightarrow> world \<Rightarrow> json list \<Rightarrow> turn \<times> world \<times> json list" where
  "iteration rt ai model oa_tools w messages =
     (case openai_chat ai model messages oa_tools of
        Raise e \<Rightarrow> (Raised e, w, messages)
      | Blocks \<Rightarrow> (Stuck, w, messages)
      | Return response \<Rightarrow>
     (case message_of response of
        Inl e \<Rightarrow> (Raised e, w, messages)
      | Inr message \<Rightarrow>
     (case value_get message ''tool_calls'' (JArr []) of
        Inl e \<Rightarrow> (Raised e, w, messages @ [message])
      | Inr tool_calls \<Rightarrow>
          if \<not> truthy tool_calls then
            (case value_get message ''content'' (JStr []) of
               Inl e \<Rightarrow> (Raised e, w, messages @ [message])
             | Inr content \<Rightarrow>
                 (Final (if truthy content then content else JStr []), w, messages @ [message]))
          else
            (case iterate tool_calls of
               Inl e \<Rightarrow> (Raised e, w, messages @ [message])
             | Inr tcs \<Rightarrow>
                 (case run_tool_calls rt w tcs (messages @ [message]) of
                    (Raise e, w', messages') \<Rightarrow> (Raised e, w', messages')
                  | (Blocks, w', messages') \<Rightarrow> (Stuck, w', messages')
                  | (Return _, w', messages') \<Rightarrow> (Next, w', messages'))))))"

text \<open>
  \<open>for _ in range(8)\<close> with the iterations left as the recursion argument, and the
  \<open>return\<close> that follows the loop. The result is what \<open>run_llm_flow\<close> returns or raises
  from the loop on, the connection, the conversation, and the number of iterations that
  were started (a count the code does not keep).
\<close>

definition SENTINEL :: json where
  "SENTINEL = JStr ''Stopped after max tool-call iterations.''"

fun tool_loop ::
  "env \<Rightarrow> openai \<Rightarrow> string \<Rightarrow> json list \<Rightarrow> nat \<Rightarrow> world \<Rightarrow> json list
    \<Rightarrow> json outcome \<times> world \<times> json list \<times> nat" where
  "tool_loop rt ai model oa_tools 0 w messages = (Return SENTINEL, w, messages, 0)"
| "tool_loop rt ai model oa_tools (Suc left) w messages =
     (case iteration rt ai model oa_tools w messages of
        (Final v, w', messages') \<Rightarrow> (Return v, w', messages', 1)
      | (Raised e, w', messages') \<Rightarrow> (Raise e, w', messages', 1)
      | (Stuck, w', messages') \<Rightarrow> (Blocks, w', messages', 1)
      | (Next, w', messages') \<Rightarrow>
          (case tool_loop rt ai model oa_tools left w' messages' of
             (r, w'', messages'', n) \<Rightarrow> (r, w'', messages'', Suc n)))"

text \<open>The list comprehension that turns the server's tools into the service's schema.\<close>

fun oa_tools_of :: "json list \<Rightarrow> exc + json list" where
  "oa_tools_of [] = Inr []"
| "oa_tools_of (t # ts) =
     (case subscript t ''name'' of
        Inl e \<Rightarrow> Inl e
      | Inr name \<Rightarrow>
          (case t of
             JObj d \<Rightarrow>
               (case oa_tools_of ts of
                  Inl e \<Rightarrow> Inl e
                | Inr rest \<Rightarrow>
                    Inr (JObj [(''type'', JStr ''function''),
                               (''function'',
                                  JObj [(''name'', name),
                                        (''description'', dict_get_default d ''description'' (JStr [])),
                                        (''parameters'',
                                           dict_get_default d ''inputSchema''
                                             (JObj [(''type'', JStr ''object''), (''properties'', JObj [])]))])]
                         # rest))
           | _ \<Rightarrow> Inl AttributeError))"

text \<open>
  \<open>run_llm_flow\<close>: a new connection, the handshake and the tool list (\<open>prepare\<close>, which
  gives the tools in the service's schema and the connection), the first two messages of
  the conversation, then the loop. The result is what the function returns or raises and
  the number of iterations of the loop. (The connection is closed on every way out and is
  not part of the result.)
\<close>

definition initialize_params :: json where
  "initialize_params =
     JObj [(''protocolVersion'', JStr PROTOCOL_VERSION),
           (''capabilities'', JObj []),
           (''clientInfo'', JObj [(''name'', JStr ''local-cli''), (''version'', JStr ''1.0.0'')])]"

definition prepare :: "env \<Rightarrow> (json list \<times> world) outcome" where
  "prepare rt =
     (case request rt connect ''initialize'' initialize_params of
        (Raise e, _) \<Rightarrow> Raise e
      | (Blocks, _) \<Rightarrow> Blocks
      | (Return _, w1) \<Rightarrow>
     (case notify rt w1 ''notifications/initialized'' JNull of
        (Raise e, _) \<Rightarrow> Raise e
      | (Blocks, _) \<Rightarrow> Blocks
      | (Return _, w2) \<Rightarrow>
     (case request rt w2 ''tools/list'' JNull of
        (Raise e, _) \<Rightarrow> Raise e
      | (Blocks, _) \<Rightarrow> Blocks
      | (Return listing, w3) \<Rightarrow>
     (case subscript listing ''tools'' of
        Inl e \<Rightarrow> Raise e
      | Inr mcp_tools \<Rightarrow>
     (case iterate mcp_tools of
        Inl e \<Rightarrow> Raise e
      | Inr ts \<Rightarrow>
     (case oa_tools_of ts of
        Inl e \<Rightarrow> Raise e
      | Inr oa_tools \<Rightarrow> Return (oa_tools, w3)))))))"

definition first_messages :: "string \<Rightarrow> json list" where
  "first_messages prompt =
     [JObj [(''role'', JStr ''system''), (''content'', JStr SYSTEM_PROMPT)],
      JObj [(''role'', JStr ''user''), (''content'', JStr prompt)]]"

definition run_llm_flow :: "env \<Rightarrow> openai \<Rightarrow> string \<Rightarrow> string \<Rightarrow> json outcome \<times> nat" where
  "run_llm_flow rt ai prompt model =
     (case prepare rt of
        Raise e \<Rightarrow> (Raise e, 0)
      | Blocks \<Rightarrow> (Blocks, 0)
      | Return (oa_tools, w) \<Rightarrow>
          (case tool_loop rt ai model oa_tools 8 w (first_messages prompt) of
             (r, _, _, n) \<Rightarrow> (r, n)))"

section \<open>Notions used in the statements\<close>

subsection \<open>Header lines\<close>

text \<open>
  A complete line ends with its only line feed. \<open>is_length_header\<close> is the test of the
  header loop, \<open>length_value\<close> the integer it reads from such a line. A line \<open>passes\<close>
  when the loop goes on after it: it is no \<open>Content-Length\<close> line, or one whose value
  \<open>int()\<close> accepts (otherwise \<open>int()\<close> raises \<open>ValueError\<close> and the loop ends with it).
  \<open>plain_header\<close>: a complete line that is neither the blank line nor a \<open>Content-Length\<close>
  line; \<open>good_header\<close>: a complete line, not the blank one, that passes.
\<close>

definition complete_line :: "string \<Rightarrow> bool" where
  "complete_line l = (l \<noteq> [] \<and> last l = LF \<and> LF \<notin> set (butlast l))"

definition is_length_header :: "string \<Rightarrow> bool" where
  "is_length_header l = startswith (lower l) ''content-length:''"

definition length_value :: "env \<Rightarrow> string \<Rightarrow> exc + int" where
  "length_value rt l = (case after_colon l of Inl e \<Rightarrow> Inl e | Inr v \<Rightarrow> py_int rt (strip v))"

definition passes :: "env \<Rightarrow> string \<Rightarrow> bool" where
  "passes rt l =
     (is_length_header l \<longrightarrow> (case length_value rt l of Inl _ \<Rightarrow> False | Inr _ \<Rightarrow> True))"

definition plain_header :: "string \<Rightarrow> bool" where
  "plain_header l = (complete_line l \<and> l \<noteq> CRLF \<and> \<not> is_length_header l)"

definition good_header :: "env \<Rightarrow> string \<Rightarrow> bool" where
  "good_header rt l = (complete_line l \<and> l \<noteq> CRLF \<and> passes rt l)"

text \<open>The value of \<open>content_length\<close> after the loop has gone through header lines.\<close>

fun content_length_of :: "env \<Rightarrow> int option \<Rightarrow> string list \<Rightarrow> int option" where
  "content_length_of rt cl [] = cl"
| "content_length_of rt cl (l # ls) =
     content_length_of rt
       (if is_length_header l then (case length_value rt l of Inl _ \<Rightarrow> cl | Inr n \<Rightarrow> Some n)
        else cl) ls"

subsection \<open>The JSON library on a message\<close>

text \<open>
  \<open>faithful rt m\<close>: \<open>json.loads\<close> gives \<open>m\<close> back from \<open>json.dumps(m)\<close>, and the text is a
  \<open>bytes\<close> object that is not empty. Python's library does so for a document built from
  \<open>None\<close>, booleans, integers, strings, lists and dictionaries with distinct string keys.
  Being a \<open>bytes\<close> object on the machine, the text has a length below 2^63 - 1 (the
  length of an object is a signed 64-bit integer, and the object has a header) and an
  object of that length can be allocated.
\<close>

definition faithful :: "env \<Rightarrow> json \<Rightarrow> bool" where
  "faithful rt m =
     (loads rt (dumps rt m) = Inr m \<and> dumps rt m \<noteq> []
      \<and> int (length (dumps rt m)) < 9223372036854775807
      \<and> allocate rt (length (dumps rt m)) = None)"

text \<open>
  An environment for examples: its codec knows the documents of a table, each with its
  text; every other document is written as \<open>null\<close> and every other text is refused. Its
  interpreter has the default limit of 4300 digits, and its machine refuses to allocate
  2 GiB or more.
\<close>

definition table_env :: "(json \<times> string) list \<Rightarrow> env" where
  "table_env tab =
     \<lparr>dumps = (\<lambda>v. case map_of tab v of None \<Rightarrow> ''null'' | Some s \<Rightarrow> s),
      loads = (\<lambda>s. case map_of (map (\<lambda>(v, t). (t, v)) tab) s of
                      None \<Rightarrow> Inl JSONDecodeError
                    | Some v \<Rightarrow> Inr v),
      py_str = (\<lambda>v. ''?''),
      exc_text = (\<lambda>e. ''error''),
      utcnow = ''2024-11-05T00:00:00'',
      int_max_str_digits = 4300,
      alloc_error = (\<lambda>k. if 2147483648 \<le> k then Some MemoryError else None)\<rparr>"

subsection \<open>Requests in a row\<close>

text \<open>The payloads of requests made one after the other, the first with id \<open>k\<close>.\<close>

fun payloads_from :: "int \<Rightarrow> (string \<times> json) list \<Rightarrow> json list" where
  "payloads_from k [] = []"
| "payloads_from k ((method, params) # rs) =
     request_payload k method params # payloads_from (k + 1) rs"

text \<open>The reply the server sends to a request, if it sends one.\<close>

definition reply_to :: "env \<Rightarrow> json \<Rightarrow> json option" where
  "reply_to rt payload = (case handle rt payload of Inl _ \<Rightarrow> None | Inr reply \<Rightarrow> reply)"

text \<open>The names of the registered tools, as JSON strings.\<close>

definition tool_names :: "json list" where
  "tool_names = map (\<lambda>(name, spec). JStr name) TOOLS"

subsection \<open>The chat service\<close>

text \<open>
  \<open>asks_for_tools r\<close>: the outcome \<open>r\<close> of a call of the service is not a message without
  tool calls, that is, not one on which the loop returns a final answer.
\<close>

definition asks_for_tools :: "json outcome \<Rightarrow> bool" where
  "asks_for_tools r =
     (case r of
        Return response \<Rightarrow>
          (case message_of response of
             Inl _ \<Rightarrow> True
           | Inr message \<Rightarrow>
               (case value_get message ''tool_calls'' (JArr []) of
                  Inl _ \<Rightarrow> True
                | Inr tool_calls \<Rightarrow> truthy tool_calls))
      | _ \<Rightarrow> True)"

text \<open>
  \<open>goes_on \<dots> k w messages\<close>: each of the next \<open>k\<close> iterations of the loop, started on the
  connection \<open>w\<close> and the conversation \<open>messages\<close>, ends by going to the next one: its
  message has tool calls, and nothing in it raises or blocks.
\<close>

fun goes_on ::
  "env \<Rightarrow> openai \<Rightarrow> string \<Rightarrow> json list \<Rightarrow> nat \<Rightarrow> world \<Rightarrow> json list \<Rightarrow> bool" where
  "goes_on rt ai model oa_tools 0 w messages = True"
| "goes_on rt ai model oa_tools (Suc k) w messages =
     (case iteration rt ai model oa_tools w messages of
        (Next, w', messages') \<Rightarrow> goes_on rt ai model oa_tools k w' messages'
      | _ \<Rightarrow> False)"

subsection \<open>Examples of runs\<close>

text \<open>
  A chat service that has a key and answers every call alike, with a message that asks for
  one call of the tool \<open>name\<close> with the arguments \<open>{}\<close>.
\<close>

definition always_calls :: "string \<Rightarrow> openai" where
  "always_calls name =
     \<lparr>api_key = Some ''key'',
      post = (\<lambda>payload.
        Return (JObj [(''choices'', JArr [JObj [(''message'',
          JObj [(''role'', JStr ''assistant''),
                (''tool_calls'',
                   JArr [JObj [(''id'', JStr ''call''),
                               (''function'', JObj [(''name'', JStr name),
                                                    (''arguments'', JStr ''{}'')])]])])]])]))\<rparr>"

text \<open>
  The documents of a run of \<open>run_llm_flow\<close> with that service, each with a text of its own:
  the arguments \<open>{}\<close>, the handshake, the tool list, and the eight calls of the tool with
  ids 3 to 10, \<open>answer k\<close> being the server's response to the call with id \<open>k\<close>.
\<close>

definition call_payload :: "string \<Rightarrow> int \<Rightarrow> json" where
  "call_payload name k =
     request_payload k ''tools/call'' (JObj [(''name'', JStr name), (''arguments'', JObj [])])"

definition run_table :: "string \<Rightarrow> (int \<Rightarrow> json) \<Rightarrow> (json \<times> string) list" where
  "run_table name answer =
     [(JObj [], ''{}''),
      (request_payload 1 ''initialize'' initialize_params, ''q1''),
      (result_response (JInt 1) initialize_result, ''a1''),
      (notify_payload ''notifications/initialized'' JNull, ''n''),
      (request_payload 2 ''tools/list'' JNull, ''q2''),
      (result_response (JInt 2) tools_listing, ''a2''),
      (call_payload name 3, ''q3''), (answer 3, ''a3''),
      (call_payload name 4, ''q4''), (answer 4, ''a4''),
      (call_payload name 5, ''q5''), (answer 5, ''a5''),
      (call_payload name 6, ''q6''), (answer 6, ''a6''),
      (call_payload name 7, ''q7''), (answer 7, ''a7''),
      (call_payload name 8, ''q8''), (answer 8, ''a8''),
      (call_payload name 9, ''q9''), (answer 9, ''a9''),
      (call_payload name 10, ''q10''), (answer 10, ''a10'')]"

text \<open>
  The server's answers in the two runs: the result of \<open>navigation\<close> on its default, whose
  text the codec of the table writes as \<open>null\<close>, and the error for a tool that is not
  registered.
\<close>

definition navigation_answer :: "int \<Rightarrow> json" where
  "navigation_answer k =
     result_response (JInt k)
       (JObj [(''content'', JArr [JObj [(''type'', JStr ''text''), (''text'', JStr ''null'')]]),
              (''isError'', JBool False)])"

definition horn_answer :: "int \<Rightarrow> json" where
  "horn_answer k = error_response (JInt k) (- 32000) ''Unknown tool: horn''"

section \<open>Decimal lengths and header lines\<close>

lemma digit_char_props: "d < 10 \<Longrightarrow> is_digit (digit_char d) \<and> digit_val (digit_char d) = d \<and> \<not> is_space (digit_char d) \<and> digit_char d \<noteq> CHR ''-'' \<and> digit_char d \<noteq> CHR ''+'' \<and> digit_char d \<noteq> LF"
proof -
  assume "d < 10"
  then have "d \<in> {0, 1, 2, 3, 4, 5, 6, 7, 8, 9}" by auto
  then show ?thesis
    by (auto simp: digit_char_def is_digit_def digit_val_def is_space_def)
qed

lemma dec_nonempty: "dec n \<noteq> []"
  by (subst dec.simps) simp

lemma dec_digits: "c \<in> set (dec n) \<Longrightarrow> is_digit c \<and> \<not> is_space c \<and> c \<noteq> LF"
proof (induction n rule: dec.induct)
  case (1 n)
  show ?case
  proof (cases "n < 10")
    case True
    with "1.prems" show ?thesis
      by (subst (asm) dec.simps) (simp add: digit_char_props)
  next
    case False
    with "1.prems" have "c \<in> set (dec (n div 10)) \<or> c = digit_char (n mod 10)"
      by (subst (asm) dec.simps) auto
    with False "1.IH" show ?thesis
      by (auto simp: digit_char_props)
  qed
qed

lemma int_digits_all:
  "\<forall>c \<in> set xs. is_digit c \<Longrightarrow> xs \<noteq> [] \<or> p \<Longrightarrow>
   int_digits p acc xs = Some (foldl (\<lambda>a c. 10 * a + digit_val c) acc xs)"
  by (induction xs arbitrary: p acc) auto

lemma foldl_dec: "foldl (\<lambda>a c. 10 * a + digit_val c) 0 (dec n) = n"
proof (induction n rule: dec.induct)
  case (1 n)
  show ?case
  proof (cases "n < 10")
    case True
    then show ?thesis by (subst dec.simps) (simp add: digit_char_props)
  next
    case False
    with "1.IH" show ?thesis
      by (subst dec.simps) (simp add: digit_char_props)
  qed
qed

lemma hd_dec: "\<exists>c cs. dec n = c # cs \<and> is_digit c \<and> \<not> is_space c \<and> c \<noteq> CHR ''-'' \<and> c \<noteq> CHR ''+''"
proof -
  obtain c cs where e: "dec n = c # cs" using dec_nonempty [of n] by (cases "dec n") auto
  then have "c \<in> set (dec n)" by simp
  then have "is_digit c \<and> \<not> is_space c" using dec_digits by blast
  moreover from this have "c \<noteq> CHR ''-'' \<and> c \<noteq> CHR ''+''"
    by (auto simp: is_digit_def)
  ultimately show ?thesis using e by blast
qed

lemma strip_dec: "strip (CHR '' '' # dec n @ CRLF) = dec n" "strip (dec n) = dec n"
proof -
  obtain c cs where e: "dec n = c # cs" and c: "\<not> is_space c" using hd_dec by blast
  have l: "\<not> is_space (last (dec n))"
    using dec_digits [of "last (dec n)" n] dec_nonempty [of n] by auto
  obtain d ds where r: "rev (dec n) = d # ds" and d: "\<not> is_space d"
    using l dec_nonempty [of n] by (cases "rev (dec n)") (auto simp: last_rev [symmetric] simp del: last_rev)
  have sp: "is_space (CHR '' '')" "is_space (CHR 0x0D)" "is_space LF"
    by (simp_all add: is_space_def)
  show "strip (CHR '' '' # dec n @ CRLF) = dec n"
    using e c r d sp by (simp add: strip_def) (metis rev_rev_ident rev.simps(2))
  show "strip (dec n) = dec n"
    using e c r d by (simp add: strip_def) (metis rev_rev_ident rev.simps(2))
qed

lemma dec_length: "0 < k \<Longrightarrow> n < 10 ^ k \<Longrightarrow> length (dec n) \<le> k"
proof (induction k arbitrary: n)
  case 0
  then show ?case by simp
next
  case (Suc k)
  show ?case
  proof (cases "n < 10")
    case True
    then show ?thesis by (subst dec.simps) simp
  next
    case False
    with Suc.prems(2) have k: "0 < k" by (cases k) auto
    from Suc.prems(2) have "n < 10 * 10 ^ k" by simp
    then have "n div 10 < 10 ^ k" by linarith
    from Suc.IH [OF k this] False show ?thesis by (subst dec.simps) simp
  qed
qed

lemma few_digits:
  assumes "int n < 9223372036854775807"
  shows "\<not> too_many_digits rt (dec n)"
proof -
  from assms have "n < 10 ^ 19" by simp
  then have "length (dec n) \<le> 19" by (rule dec_length [rotated]) simp
  with length_filter_le [of is_digit "dec n"] have "length (filter is_digit (dec n)) \<le> 19"
    by (rule le_trans)
  then show ?thesis by (simp add: too_many_digits_def)
qed

lemma py_int_dec:
  assumes "int n < 9223372036854775807"
  shows "py_int rt (dec n) = Inr (int n)"
proof -
  obtain c cs where e: "dec n = c # cs" and c: "c \<noteq> CHR ''-''" "c \<noteq> CHR ''+''"
    using hd_dec by blast
  have "int_digits False 0 (dec n) = Some n"
    using int_digits_all [of "dec n" False 0] dec_digits dec_nonempty foldl_dec by auto
  then have i: "int_literal rt (dec n) = Some n"
    using few_digits [OF assms, of rt] by (simp add: int_literal_def)
  have s: "strip (dec n) = c # cs" using strip_dec(2) [of n] e by simp
  have "py_int rt (dec n) = (case int_literal rt (c # cs) of None \<Rightarrow> Inl InvalidLiteral | Some n \<Rightarrow> Inr (int n))"
    unfolding py_int_def s using c by simp
  with i e show ?thesis by simp
qed

lemma readline_line: "LF \<notin> set l \<Longrightarrow> readline eof (l @ LF # r) = Some (l @ [LF], r)"
proof -
  assume a: "LF \<notin> set l"
  then have p: "\<And>x. x \<in> set l \<Longrightarrow> x \<noteq> LF" by auto
  have d: "dropWhile (\<lambda>c. c \<noteq> LF) (l @ LF # r) = LF # r"
    using p by (simp add: dropWhile_append2)
  have t: "takeWhile (\<lambda>c. c \<noteq> LF) (l @ LF # r) = l"
    using p by (simp add: takeWhile_append2)
  show ?thesis by (simp add: readline_def d t)
qed


lemma header_line_facts:
  fixes n :: nat
  defines "line \<equiv> ''Content-Length: '' @ dec n @ CRLF"
  shows "line \<noteq> []" "line \<noteq> CRLF" "startswith (lower line) ''content-length:''"
    "after_colon line = Inr (CHR '' '' # dec n @ CRLF)"
  by (simp_all add: line_def startswith_def lower_def lower_byte_def after_colon_def)

lemma read_headers_blank:
  "read_headers rt eof cl (CRLF @ rest) = HDone cl rest"
proof -
  have "readline eof ([CHR 0x0D] @ LF # rest) = Some ([CHR 0x0D] @ [LF], rest)"
    by (rule readline_line) simp
  then show ?thesis
    by (subst read_headers.simps) simp
qed

lemma read_headers_frame:
  assumes "int (length body) < 9223372036854775807"
  shows "read_headers rt eof cl (frame body @ rest) = HDone (Some (int (length body))) (body @ rest)"
proof -
  let ?n = "length body"
  let ?l = "''Content-Length: '' @ dec ?n @ [CHR 0x0D]"
  have nolf: "LF \<notin> set ?l" using dec_digits [of LF ?n] by auto
  have split: "frame body @ rest = ?l @ LF # (CRLF @ body @ rest)"
    by (simp add: frame_def)
  have rl: "readline eof (frame body @ rest) = Some (''Content-Length: '' @ dec ?n @ CRLF, CRLF @ body @ rest)"
    unfolding split using readline_line [OF nolf, of eof "CRLF @ body @ rest"] by simp
  have pi: "py_int rt (strip (CHR '' '' # dec ?n @ CRLF)) = Inr (int ?n)"
    by (simp add: strip_dec py_int_dec [OF assms])
  show ?thesis
    apply (subst read_headers.simps)
    apply (simp only: rl option.case prod.case header_line_facts if_False if_True sum.case pi)
    apply (rule read_headers_blank)
    done
qed

lemma read_exact:
  assumes "int (length body) < 9223372036854775807" and "allocate rt (length body) = None"
  shows "read rt eof (int (length body)) (body @ rest) = Return (body, rest)"
  using assms by (simp add: read_def)

section \<open>The frame round trip\<close>

text \<open>
  Claim C1. Writing a message as a frame and reading one frame from the bytes written
  gives the message back, in the client's \<open>_read\<close> and in the server's \<open>_read_message\<close>,
  and leaves in the pipe exactly the bytes that follow the frame. The message is any
  document that the JSON library writes and reads back (\<open>faithful\<close>), its text being a
  \<open>bytes\<close> object of the machine.
\<close>

theorem frame_round_trip:
  assumes "faithful rt m"
  shows "client_read rt eof (send rt m @ rest) = (Return m, rest)
       \<and> read_message rt eof (send rt m @ rest) = (Return m, rest)"
  using assms
  by (simp add: faithful_def client_read_def read_message_def send_def read_headers_frame
      read_exact)

theorem frame_round_trip_witness:
  "faithful (table_env [(JObj [], ''{}'')]) (JObj [])
   \<and> client_read (table_env [(JObj [], ''{}'')]) True
         (send (table_env [(JObj [], ''{}'')]) (JObj []) @ ''rest'')
       = (Return (JObj []), ''rest'')
   \<and> read_message (table_env [(JObj [], ''{}'')]) True
         (send (table_env [(JObj [], ''{}'')]) (JObj []) @ ''rest'')
       = (Return (JObj []), ''rest'')"
proof -
  have f: "faithful (table_env [(JObj [], ''{}'')]) (JObj [])"
    by (simp add: faithful_def table_env_def allocate_def allocate_def)
  from frame_round_trip [OF f] f show ?thesis by simp
qed

section \<open>The header loop on well-formed and on cut-off headers\<close>

lemma complete_lineD: "complete_line l \<Longrightarrow> \<exists>b. l = b @ [LF] \<and> LF \<notin> set b"
  unfolding complete_line_def
  by (metis append_butlast_last_id)

lemma read_headers_good:
  assumes "good_header rt l"
  shows "read_headers rt eof cl (l @ s) = read_headers rt eof (content_length_of rt cl [l]) s"
proof -
  from assms obtain b where l: "l = b @ [LF]" and b: "LF \<notin> set b"
    using complete_lineD by (auto simp: good_header_def)
  have rl: "readline eof (l @ s) = Some (l, s)"
    using readline_line [OF b, of eof s] by (simp add: l)
  have ne: "l \<noteq> []" "l \<noteq> CRLF" using assms by (auto simp: good_header_def complete_line_def)
  show ?thesis
  proof (cases "is_length_header l")
    case True
    with assms obtain n where n: "length_value rt l = Inr n"
      by (auto simp: good_header_def passes_def split: sum.splits)
    then obtain v where v: "after_colon l = Inr v" and p: "py_int rt (strip v) = Inr n"
      by (auto simp: length_value_def split: sum.splits)
    from True have sw: "startswith (lower l) ''content-length:''"
      by (simp add: is_length_header_def)
    show ?thesis
      by (subst read_headers.simps) (simp add: rl ne sw v p True n)
  next
    case False
    then have sw: "\<not> startswith (lower l) ''content-length:''"
      by (simp add: is_length_header_def)
    show ?thesis
      by (subst read_headers.simps) (simp add: rl ne sw False)
  qed
qed

lemma content_length_of_step:
  "content_length_of rt cl (l # ls) = content_length_of rt (content_length_of rt cl [l]) ls"
  by simp

lemma read_headers_lines:
  "\<forall>l \<in> set ls. good_header rt l \<Longrightarrow>
   read_headers rt eof cl (concat ls @ s) = read_headers rt eof (content_length_of rt cl ls) s"
proof (induction ls arbitrary: cl)
  case Nil
  then show ?case by simp
next
  case (Cons l ls)
  then have g: "good_header rt l" and r: "\<forall>l \<in> set ls. good_header rt l" by auto
  have "read_headers rt eof cl (concat (l # ls) @ s) = read_headers rt eof cl (l @ (concat ls @ s))"
    by simp
  also have "\<dots> = read_headers rt eof (content_length_of rt cl [l]) (concat ls @ s)"
    by (rule read_headers_good [OF g])
  also have "\<dots> = read_headers rt eof (content_length_of rt (content_length_of rt cl [l]) ls) s"
    by (rule Cons.IH [OF r])
  finally show ?case by (simp only: content_length_of_step [symmetric])
qed

lemma plain_is_good: "plain_header l \<Longrightarrow> good_header rt l"
  by (simp add: plain_header_def good_header_def passes_def)

lemma content_length_of_plain:
  "\<forall>l \<in> set ls. plain_header l \<Longrightarrow> content_length_of rt cl ls = cl"
  by (induction ls arbitrary: cl) (auto simp: plain_header_def)

lemma read_headers_eof_tail:
  assumes "LF \<notin> set t" and "passes rt t"
  shows "read_headers rt True cl t = HEof"
proof (cases "t = []")
  case True
  then show ?thesis
    by (subst read_headers.simps) (simp add: readline_def)
next
  case False
  from assms(1) have dw: "dropWhile (\<lambda>c. c \<noteq> LF) t = []"
    by (auto simp: dropWhile_eq_Nil_conv)
  have rl: "readline True t = Some (t, [])"
    by (simp add: readline_def dw)
  have nb: "t \<noteq> CRLF" using assms(1) by auto
  have e: "read_headers rt True c [] = HEof" for c
    by (subst read_headers.simps) (simp add: readline_def)
  show ?thesis
  proof (cases "is_length_header t")
    case True
    with assms(2) obtain n where n: "length_value rt t = Inr n"
      by (auto simp: passes_def split: sum.splits)
    then obtain v where v: "after_colon t = Inr v" and p: "py_int rt (strip v) = Inr n"
      by (auto simp: length_value_def split: sum.splits)
    from True have sw: "startswith (lower t) ''content-length:''"
      by (simp add: is_length_header_def)
    show ?thesis
      by (subst read_headers.simps) (simp add: rl False nb sw v p e)
  next
    case nl: False
    then have sw: "\<not> startswith (lower t) ''content-length:''"
      by (simp add: is_length_header_def)
    show ?thesis
      by (subst read_headers.simps) (simp add: rl False nb sw e)
  qed
qed

lemma headers_missing_length:
  assumes "\<forall>l \<in> set ls. plain_header l"
  shows "read_headers rt eof None (concat ls @ CRLF @ rest) = HDone None rest"
proof -
  from assms have g: "\<forall>l \<in> set ls. good_header rt l" by (auto intro: plain_is_good)
  show ?thesis
    by (simp only: read_headers_lines [OF g] content_length_of_plain [OF assms] read_headers_blank)
qed

lemma headers_cut_short:
  assumes "\<forall>l \<in> set hs. good_header rt l" and "LF \<notin> set t" and "passes rt t"
  shows "read_headers rt True None (concat hs @ t) = HEof"
  by (simp only: read_headers_lines [OF assms(1)] read_headers_eof_tail [OF assms(2,3)])

lemma headers_with_length:
  assumes "\<forall>l \<in> set hs. good_header rt l"
  shows "read_headers rt eof None (concat hs @ CRLF @ rest) = HDone (content_length_of rt None hs) rest"
  by (simp only: read_headers_lines [OF assms] read_headers_blank)

lemma headers_missing_length':
  "\<forall>l \<in> set ls. plain_header l \<Longrightarrow>
   read_headers rt eof None (concat ls @ CHR 0x0D # LF # rest) = HDone None rest"
  using headers_missing_length [of ls rt eof rest] by simp

lemma headers_with_length':
  "\<forall>l \<in> set hs. good_header rt l \<Longrightarrow>
   read_headers rt eof None (concat hs @ CHR 0x0D # LF # rest) = HDone (content_length_of rt None hs) rest"
  using headers_with_length [of hs rt eof rest] by simp

lemma main_read_none:
  "read_message rt eof s = (Return JNull, rest) \<Longrightarrow> main rt eof s = ([], Exited)"
  by (subst main.simps) simp

lemma main_read_raise:
  "read_message rt eof s = (Raise e, rest) \<Longrightarrow> main rt eof s = ([], Crashed e)"
  by (subst main.simps) simp

lemma example_lines:
  "plain_header (''X-Trace: 1'' @ CRLF)"
  "is_length_header (''Content-Length: abc'' @ CRLF)"
  "complete_line (''Content-Length: abc'' @ CRLF)"
  "is_length_header ''Content-Length: ''"
  "LF \<notin> set ''Content-Length: ''"
  by (simp_all add: plain_header_def complete_line_def is_length_header_def startswith_def
      lower_def lower_byte_def)

lemma example_values:
  "good_header rt (''Content-Length: 2'' @ CRLF)"
  "passes rt ''Content-Type''"
  "content_length_of rt None [''Content-Length: 0'' @ CRLF] = Some 0"
  "good_header rt (''Content-Length: 0'' @ CRLF)"
  "length_value rt (''Content-Length: abc'' @ CRLF) = Inl InvalidLiteral"
  "length_value rt ''Content-Length: '' = Inl InvalidLiteral"
  by (simp_all add: good_header_def complete_line_def passes_def
      is_length_header_def startswith_def lower_def lower_byte_def length_value_def
      after_colon_def strip_def is_space_def py_int_def int_literal_def too_many_digits_def
      is_digit_def digit_val_def)

lemma read_no_bytes:
  "read rt eof n rest = Return ([], rest') \<longleftrightarrow>
     rest' = rest
     \<and> (n = 0
        \<or> (eof \<and> rest = []
           \<and> (n = - 1 \<or> (0 < n \<and> n < 9223372036854775807 \<and> allocate rt (nat n) = None))))"
proof (cases "allocate rt (nat n)")
  case None
  then show ?thesis
    by (cases "n = 0") (auto simp: read_def allocate_def split: if_splits option.splits)
next
  case (Some e)
  then have "n \<noteq> 0" by (auto simp: allocate_def)
  with Some show ?thesis
    by (auto simp: read_def allocate_def split: if_splits option.splits)
qed

lemma read_headers_bad_line:
  assumes "is_length_header b" and "length_value rt b = Inl e"
      and "complete_line b \<or> (eof \<and> LF \<notin> set b \<and> rest = [])"
  shows "read_headers rt eof cl (b @ rest) = HRaise e rest"
proof -
  from assms(1) have ne: "b \<noteq> []"
    by (auto simp: is_length_header_def startswith_def lower_def)
  have rl: "readline eof (b @ rest) = Some (b, rest)"
  proof (cases "complete_line b")
    case True
    then obtain c where b: "b = c @ [LF]" and c: "LF \<notin> set c"
      unfolding complete_line_def by (metis append_butlast_last_id)
    show ?thesis using readline_line [OF c, of eof rest] by (simp add: b)
  next
    case False
    with assms(3) have e: "eof" "LF \<notin> set b" "rest = []" by auto
    from e(2) have dw: "dropWhile (\<lambda>c. c \<noteq> LF) b = []"
      by (auto simp: dropWhile_eq_Nil_conv)
    show ?thesis by (simp add: readline_def dw e)
  qed
  have nb: "b \<noteq> CRLF"
    using assms(1) by (auto simp: is_length_header_def startswith_def lower_def)
  from assms(1) have sw: "startswith (lower b) ''content-length:''"
    by (simp add: is_length_header_def)
  from assms(2) have "(\<exists>v. after_colon b = Inr v \<and> py_int rt (strip v) = Inl e)
      \<or> after_colon b = Inl e"
    by (auto simp: length_value_def split: sum.splits)
  then show ?thesis
    by (subst read_headers.simps) (auto simp: rl ne nb sw)
qed

lemma headers_bad_length:
  assumes "\<forall>l \<in> set gs. good_header rt l" and "is_length_header b"
      and "length_value rt b = Inl e"
      and "complete_line b \<or> (eof \<and> LF \<notin> set b \<and> rest = [])"
  shows "read_headers rt eof None (concat gs @ b @ rest) = HRaise e rest"
  by (simp only: read_headers_lines [OF assms(1)] read_headers_bad_line [OF assms(2,3,4)])

section \<open>Frames without a length, streams that end in the header\<close>

text \<open>
  Claim C3, as the code has it. When the header section ends with the blank line and no
  line before it is a \<open>Content-Length\<close> line, the client's \<open>_read\<close> raises
  \<open>RuntimeError("Invalid MCP frame: missing Content-Length")\<close>. When the stream ends inside
  the header (after complete header lines, in a line with no line feed or right after the
  last line) and every \<open>Content-Length\<close> line read up to the end has a value that \<open>int()\<close>
  accepts, \<open>_read\<close> raises \<open>RuntimeError("MCP server closed stdout")\<close>, the error it also
  raises at the end of a stream with no header at all. The server's \<open>_read_message\<close> raises
  in neither case: it returns \<open>None\<close>, its signal that there is no message. When a
  \<open>Content-Length\<close> line whose value \<open>int()\<close> refuses is read (a complete line, or the last
  bytes of a stream that ends in it) after lines that the loop passes, both readers end
  with the \<open>ValueError\<close> of \<open>int()\<close>.
\<close>

theorem read_without_length:
  "((\<forall>l \<in> set ls. plain_header l) \<longrightarrow>
      client_read rt eof (concat ls @ CRLF @ rest)
        = (Raise (RuntimeError (JStr ''Invalid MCP frame: missing Content-Length'')), rest)
      \<and> read_message rt eof (concat ls @ CRLF @ rest) = (Return JNull, rest))
   \<and> ((\<forall>l \<in> set hs. good_header rt l) \<and> LF \<notin> set t \<and> passes rt t \<longrightarrow>
      client_read rt True (concat hs @ t)
        = (Raise (RuntimeError (JStr ''MCP server closed stdout'')), [])
      \<and> read_message rt True (concat hs @ t) = (Return JNull, []))
   \<and> ((\<forall>l \<in> set gs. good_header rt l) \<and> is_length_header b \<and> length_value rt b = Inl e
        \<and> (complete_line b \<or> (eof \<and> LF \<notin> set b \<and> rest = [])) \<longrightarrow>
      client_read rt eof (concat gs @ b @ rest) = (Raise e, rest)
      \<and> read_message rt eof (concat gs @ b @ rest) = (Raise e, rest))"
proof -
  have a: "client_read rt eof (concat ls @ CRLF @ rest)
        = (Raise (RuntimeError (JStr ''Invalid MCP frame: missing Content-Length'')), rest)
      \<and> read_message rt eof (concat ls @ CRLF @ rest) = (Return JNull, rest)"
    if "\<forall>l \<in> set ls. plain_header l"
    using that by (simp add: client_read_def read_message_def headers_missing_length')
  have b: "client_read rt True (concat hs @ t)
        = (Raise (RuntimeError (JStr ''MCP server closed stdout'')), [])
      \<and> read_message rt True (concat hs @ t) = (Return JNull, [])"
    if "\<forall>l \<in> set hs. good_header rt l" "LF \<notin> set t" "passes rt t"
    using that by (simp add: client_read_def read_message_def headers_cut_short)
  have c: "client_read rt eof (concat gs @ b @ rest) = (Raise e, rest)
      \<and> read_message rt eof (concat gs @ b @ rest) = (Raise e, rest)"
    if "\<forall>l \<in> set gs. good_header rt l" "is_length_header b" "length_value rt b = Inl e"
      "complete_line b \<or> (eof \<and> LF \<notin> set b \<and> rest = [])"
    by (simp add: client_read_def read_message_def headers_bad_length [OF that])
  from a b c show ?thesis by blast
qed

theorem read_without_length_witness:
  "plain_header (''X-Trace: 1'' @ CRLF)
   \<and> client_read (table_env []) False (''X-Trace: 1'' @ CRLF @ CRLF @ ''{}'')
       = (Raise (RuntimeError (JStr ''Invalid MCP frame: missing Content-Length'')), ''{}'')
   \<and> read_message (table_env []) False (''X-Trace: 1'' @ CRLF @ CRLF @ ''{}'') = (Return JNull, ''{}'')
   \<and> good_header (table_env []) (''Content-Length: 2'' @ CRLF)
   \<and> LF \<notin> set ''Content-Type'' \<and> passes (table_env []) ''Content-Type''
   \<and> client_read (table_env []) True (''Content-Length: 2'' @ CRLF @ ''Content-Type'')
       = (Raise (RuntimeError (JStr ''MCP server closed stdout'')), [])
   \<and> read_message (table_env []) True (''Content-Length: 2'' @ CRLF @ ''Content-Type'')
       = (Return JNull, [])
   \<and> is_length_header (''Content-Length: abc'' @ CRLF)
   \<and> complete_line (''Content-Length: abc'' @ CRLF)
   \<and> length_value (table_env []) (''Content-Length: abc'' @ CRLF) = Inl InvalidLiteral
   \<and> client_read (table_env []) False
         (''Content-Length: 2'' @ CRLF @ ''Content-Length: abc'' @ CRLF @ ''{}'')
       = (Raise InvalidLiteral, ''{}'')
   \<and> read_message (table_env []) False
         (''Content-Length: 2'' @ CRLF @ ''Content-Length: abc'' @ CRLF @ ''{}'')
       = (Raise InvalidLiteral, ''{}'')"
  using read_without_length [of "[''X-Trace: 1'' @ CRLF]" "table_env []" False "''{}''"
      "[''Content-Length: 2'' @ CRLF]" "''Content-Type''" "[''Content-Length: 2'' @ CRLF]"
      "''Content-Length: abc'' @ CRLF" InvalidLiteral]
    example_lines example_values [of "table_env []"]
  by simp

text \<open>
  Claim C3 as stated fails for the server's reader: on the stream that holds only the
  blank line (the header section ends without a \<open>Content-Length\<close> line), and on a stream
  that ends inside a header line, \<open>_read_message\<close> returns \<open>None\<close> and raises nothing. And
  on a stream that ends inside a \<open>Content-Length\<close> line with no value, the client's \<open>_read\<close>
  raises the \<open>ValueError\<close> of \<open>int()\<close>, not one of its two errors.
\<close>

theorem server_reader_returns_none:
  "read_message (table_env []) True CRLF = (Return JNull, [])
   \<and> read_message (table_env []) True ''Content-Type'' = (Return JNull, [])
   \<and> client_read (table_env []) True ''Content-Length: '' = (Raise InvalidLiteral, [])"
proof -
  have a: "read_headers (table_env []) True None CRLF = HDone None []"
    using read_headers_blank [of "table_env []" True None "[]"] by simp
  have b: "read_headers (table_env []) True None ''Content-Type'' = HEof"
    by (rule read_headers_eof_tail) (simp_all add: example_values)
  have "True \<and> LF \<notin> set ''Content-Length: '' \<and> ([]::string) = []"
    by simp
  then have "complete_line ''Content-Length: ''
      \<or> (True \<and> LF \<notin> set ''Content-Length: '' \<and> ([]::string) = [])" ..
  from read_headers_bad_line [OF example_lines(4) example_values(6) this, where cl = None]
  have c: "read_headers (table_env []) True None ''Content-Length: '' = HRaise InvalidLiteral []"
    by simp
  show ?thesis by (simp add: read_message_def client_read_def a b c)
qed

section \<open>When the server's reader returns \<open>None\<close>\<close>

text \<open>
  Claim C10, as the code has it. \<open>_read_message\<close> returns \<open>None\<close>, and \<open>main\<close> then leaves
  its loop having written nothing and exits, in each of these cases: the stream ends before
  the blank line, after header lines that the loop passes (every \<open>Content-Length\<close> line
  among them has a value that \<open>int()\<close> accepts); the header section ends with no
  \<open>Content-Length\<close> line in it; the header section ends, its lines passed and a length
  read, and the read of the body returns no byte. The read of the body returns no byte
  exactly when the length is 0, or the stream ends right after the blank line and the
  length is -1 or a positive length that \<open>read\<close> accepts and can allocate. In particular a
  frame with an empty body, \<open>Content-Length: 0\<close>, stops the server whatever follows it.
\<close>

theorem read_message_none:
  "((\<forall>l \<in> set hs. good_header rt l) \<and> LF \<notin> set t \<and> passes rt t \<longrightarrow>
      read_message rt True (concat hs @ t) = (Return JNull, [])
      \<and> main rt True (concat hs @ t) = ([], Exited))
   \<and> ((\<forall>l \<in> set ls. plain_header l) \<longrightarrow>
      read_message rt eof (concat ls @ CRLF @ rest) = (Return JNull, rest)
      \<and> main rt eof (concat ls @ CRLF @ rest) = ([], Exited))
   \<and> ((\<forall>l \<in> set ks. good_header rt l) \<and> content_length_of rt None ks = Some n
        \<and> read rt eof n rest = Return ([], rest') \<longrightarrow>
      read_message rt eof (concat ks @ CRLF @ rest) = (Return JNull, rest')
      \<and> main rt eof (concat ks @ CRLF @ rest) = ([], Exited))
   \<and> (read rt eof n rest = Return ([], rest') \<longleftrightarrow>
        rest' = rest
        \<and> (n = 0
           \<or> (eof \<and> rest = []
              \<and> (n = - 1 \<or> (0 < n \<and> n < 9223372036854775807 \<and> allocate rt (nat n) = None)))))
   \<and> read_message rt eof (frame [] @ rest) = (Return JNull, rest)
   \<and> main rt eof (frame [] @ rest) = ([], Exited)"
proof -
  have a: "read_message rt True (concat hs @ t) = (Return JNull, [])"
    if "\<forall>l \<in> set hs. good_header rt l" "LF \<notin> set t" "passes rt t"
    using that by (simp add: read_message_def headers_cut_short)
  have b: "read_message rt eof (concat ls @ CRLF @ rest) = (Return JNull, rest)"
    if "\<forall>l \<in> set ls. plain_header l"
    using that by (simp add: read_message_def headers_missing_length')
  have c: "read_message rt eof (concat ks @ CRLF @ rest) = (Return JNull, rest')"
    if "\<forall>l \<in> set ks. good_header rt l" "content_length_of rt None ks = Some n"
      "read rt eof n rest = Return ([], rest')"
    using that by (simp add: read_message_def headers_with_length')
  have z: "read rt eof 0 rest = Return ([], rest)"
    by (simp add: read_no_bytes)
  have d: "read_message rt eof (frame [] @ rest) = (Return JNull, rest)"
    using read_headers_frame [of "[]" rt eof None rest] z by (simp add: read_message_def)
  note e = read_no_bytes [of rt eof n rest rest']
  from a b c d e show ?thesis
    by (auto intro: main_read_none)
qed

theorem read_message_none_witness:
  "good_header (table_env []) (''Content-Length: 2'' @ CRLF)
   \<and> LF \<notin> set ''Content-Type'' \<and> passes (table_env []) ''Content-Type''
   \<and> read_message (table_env []) True (''Content-Length: 2'' @ CRLF @ ''Content-Type'') = (Return JNull, [])
   \<and> main (table_env []) True (''Content-Length: 2'' @ CRLF @ ''Content-Type'') = ([], Exited)
   \<and> plain_header (''X-Trace: 1'' @ CRLF)
   \<and> read_message (table_env []) False (''X-Trace: 1'' @ CRLF @ CRLF @ ''{}'') = (Return JNull, ''{}'')
   \<and> main (table_env []) False (''X-Trace: 1'' @ CRLF @ CRLF @ ''{}'') = ([], Exited)
   \<and> good_header (table_env []) (''Content-Length: 0'' @ CRLF)
   \<and> content_length_of (table_env []) None [''Content-Length: 0'' @ CRLF] = Some 0
   \<and> read (table_env []) False 0 ''{}'' = Return ([], ''{}'')
   \<and> read_message (table_env []) False (''Content-Length: 0'' @ CRLF @ CRLF @ ''{}'') = (Return JNull, ''{}'')
   \<and> main (table_env []) False (''Content-Length: 0'' @ CRLF @ CRLF @ ''{}'') = ([], Exited)"
  using read_message_none [of "[''Content-Length: 2'' @ CRLF]" "table_env []" "''Content-Type''"
      "[''X-Trace: 1'' @ CRLF]" False "''{}''" "[''Content-Length: 0'' @ CRLF]" 0 "''{}''"]
    example_lines example_values [of "table_env []"]
  by simp

text \<open>
  Claim C10 as stated fails in its first case: the stream ends before the blank line, after
  a \<open>Content-Length\<close> line whose value is no integer. \<open>int()\<close> raises \<open>ValueError\<close> in
  \<open>_read_message\<close>, nothing catches it, and the server ends with that exception instead of
  leaving its loop.
\<close>

theorem server_crashes_on_bad_length:
  "read_message (table_env []) True (''Content-Length: abc'' @ CRLF) = (Raise InvalidLiteral, [])
   \<and> main (table_env []) True (''Content-Length: abc'' @ CRLF) = ([], Crashed InvalidLiteral)"
proof -
  from example_lines(3) have "complete_line (''Content-Length: abc'' @ CRLF)
      \<or> (True \<and> LF \<notin> set (''Content-Length: abc'' @ CRLF) \<and> ([]::string) = [])" ..
  from read_headers_bad_line [OF example_lines(2) example_values(5) this, where cl = None]
  have "read_headers (table_env []) True None (''Content-Length: abc'' @ CRLF)
          = HRaise InvalidLiteral []"
    by simp
  then have r: "read_message (table_env []) True (''Content-Length: abc'' @ CRLF)
      = (Raise InvalidLiteral, [])"
    by (simp add: read_message_def)
  from r main_read_raise [OF r] show ?thesis by (rule conjI)
qed

section \<open>The dispatcher\<close>

lemma handle_dict:
  "handle rt (JObj d) =
     (if dict_get d ''method'' = JStr ''initialize'' then
        Inr (reply_if (dict_get d ''id'')
          (result_response (dict_get d ''id'')
            (JObj [(''protocolVersion'', JStr PROTOCOL_VERSION),
                   (''capabilities'', JObj [(''tools'', JObj [])]),
                   (''serverInfo'', JObj [(''name'', JStr ''automotive-playground''),
                                          (''version'', JStr ''1.0.0'')])])))
      else if dict_get d ''method'' = JStr ''notifications/initialized'' then Inr None
      else if dict_get d ''method'' = JStr ''tools/list'' then
        Inr (reply_if (dict_get d ''id'')
          (result_response (dict_get d ''id'')
            (JObj [(''tools'',
               JArr (map (\<lambda>(name, spec).
                           JObj [(''name'', JStr name),
                                 (''description'', dict_get spec ''description''),
                                 (''inputSchema'', dict_get spec ''inputSchema'')])
                      TOOLS))])))
      else if dict_get d ''method'' = JStr ''tools/call'' then
        (case call_from_params rt (dict_get_default d ''params'' (JObj [])) of
           Inr result \<Rightarrow> Inr (reply_if (dict_get d ''id'') (result_response (dict_get d ''id'') result))
         | Inl e \<Rightarrow>
             Inr (reply_if (dict_get d ''id'')
               (error_response (dict_get d ''id'') (- 32000) (str_exc rt e))))
      else
        Inr (reply_if (dict_get d ''id'')
          (error_response (dict_get d ''id'') (- 32601)
            (''Method not found: '' @ format_value rt (dict_get d ''method'')))))"
  by (simp add: handle_def Let_def initialize_result_def tools_listing_def)

lemma main_step:
  assumes "read_message rt eof s = (Return req, rest)" and "req \<noteq> JNull"
      and "handle rt req = Inr reply"
  shows "main rt eof s =
           ((case reply of None \<Rightarrow> [] | Some payload \<Rightarrow> send rt payload) @ fst (main rt eof rest),
            snd (main rt eof rest))"
  using assms by (subst main.simps) (simp add: split_beta)

lemma tool_call_unknown:
  "name \<notin> set tool_names \<Longrightarrow>
   tool_call rt name arguments = Inl (ValueError (''Unknown tool: '' @ format_value rt name))"
  by (auto simp: tool_call_def tool_names_def TOOLS_def)

lemma read_message_frame:
  "faithful rt m \<Longrightarrow> read_message rt eof (send rt m @ rest) = (Return m, rest)"
  by (simp add: faithful_def read_message_def send_def read_headers_frame read_exact)

lemma client_read_frame:
  "faithful rt m \<Longrightarrow> client_read rt eof (send rt m @ rest) = (Return m, rest)"
  by (simp add: faithful_def client_read_def send_def read_headers_frame read_exact)

lemma read_message_empty:
  "read_message rt True [] = (Return JNull, [])" "read_message rt False [] = (Blocks, [])"
  by (simp_all add: read_message_def read_headers.simps [of _ _ _ "[]"] readline_def)

lemma main_empty:
  "main rt True [] = ([], Exited)" "main rt False [] = ([], Waiting [])"
  by (simp_all add: main.simps [of _ _ "[]"] read_message_empty)

lemma tool_call_defaults:
  "tool_call rt (JStr ''diagnostics'') (JObj []) =
     (case diagnostics rt (JStr ''P0301'') of Inl e \<Rightarrow> Inl e | Inr r \<Rightarrow> Inr (text_content rt r))"
  "tool_call rt (JStr ''navigation'') (JObj []) =
     (case navigation (JStr ''Office'') of Inl e \<Rightarrow> Inl e | Inr r \<Rightarrow> Inr (text_content rt r))"
  "tool_call rt (JStr ''weather'') (JObj []) =
     (case weather (JStr ''city'') of Inl e \<Rightarrow> Inl e | Inr r \<Rightarrow> Inr (text_content rt r))"
  "tool_call rt (JStr ''maintenance'') (JObj []) =
     (case maintenance (JInt 42000) of Inl e \<Rightarrow> Inl e | Inr r \<Rightarrow> Inr (text_content rt r))"
  "tool_call rt (JStr ''emergency'') (JObj []) =
     (case emergency (JStr ''low'') of Inl e \<Rightarrow> Inl e | Inr r \<Rightarrow> Inr (text_content rt r))"
  "tool_call rt (JStr ''knowledge'') (JObj []) =
     (case knowledge (JStr ''P0301'') of Inl e \<Rightarrow> Inl e | Inr r \<Rightarrow> Inr (text_content rt r))"
  "tool_call rt (JStr ''vehicle_info'') (JObj []) =
     (case vehicle_info (JStr ''DEMO-VIN-123'') of Inl e \<Rightarrow> Inl e | Inr r \<Rightarrow> Inr (text_content rt r))"
  by (simp_all add: tool_call_def arguments_get_def call_with_def dict_get_default_def)

lemma services_on_defaults:
  "\<exists>r. diagnostics rt (JStr ''P0301'') = Inr r"
  "\<exists>r. navigation (JStr ''Office'') = Inr r"
  "\<exists>r. weather (JStr ''city'') = Inr r"
  "\<exists>r. maintenance (JInt 42000) = Inr r"
  "\<exists>r. emergency (JStr ''low'') = Inr r"
  "\<exists>r. knowledge (JStr ''P0301'') = Inr r"
  "\<exists>r. vehicle_info (JStr ''DEMO-VIN-123'') = Inr r"
  by (simp_all add: diagnostics_def navigation_def weather_def maintenance_def greater_than_def
      emergency_def knowledge_def vehicle_info_def hashable_def)

subsection \<open>Unknown tools and failing handlers\<close>

text \<open>
  Claim C4. For a \<open>tools/call\<close> request that carries an id: when \<open>params\<close> is a dictionary
  (or absent) and its \<open>name\<close> is none of the registered tool names, the server sends the
  error response with code -32000 and message \<open>Unknown tool: <name>\<close>; when the call
  raises, whatever the exception, the server sends the error response with code -32000 and
  the exception's message. In every case the request is answered, by a result or by an
  error with code -32000, nothing escapes the loop, and \<open>main\<close> goes on with the bytes that
  follow the frame. The responses are written out as the dictionaries the server sends.
\<close>

theorem unknown_tool_error:
  assumes "dict_get d ''method'' = JStr ''tools/call''"
      and "dict_get d ''id'' \<noteq> JNull"
  shows "(\<forall>p. dict_get_default d ''params'' (JObj []) = JObj p
              \<and> dict_get_default p ''name'' (JStr []) \<notin> set tool_names \<longrightarrow>
            handle rt (JObj d) =
              Inr (Some (JObj
                [(''jsonrpc'', JStr ''2.0''), (''id'', dict_get d ''id''),
                 (''error'',
                    JObj [(''code'', JInt (- 32000)),
                          (''message'',
                             JStr (''Unknown tool: ''
                                   @ format_value rt (dict_get_default p ''name'' (JStr []))))])])))
       \<and> (\<forall>e. call_from_params rt (dict_get_default d ''params'' (JObj [])) = Inl e \<longrightarrow>
            handle rt (JObj d) =
              Inr (Some (JObj
                [(''jsonrpc'', JStr ''2.0''), (''id'', dict_get d ''id''),
                 (''error'', JObj [(''code'', JInt (- 32000)), (''message'', JStr (str_exc rt e))])])))
       \<and> (\<exists>r. handle rt (JObj d) = Inr (Some r)
            \<and> ((\<exists>result. r = JObj [(''jsonrpc'', JStr ''2.0''), (''id'', dict_get d ''id''),
                                    (''result'', result)])
                 \<or> (\<exists>message. r = JObj [(''jsonrpc'', JStr ''2.0''), (''id'', dict_get d ''id''),
                                          (''error'', JObj [(''code'', JInt (- 32000)),
                                                            (''message'', JStr message)])]))
            \<and> (\<forall>eof s rest. read_message rt eof s = (Return (JObj d), rest) \<longrightarrow>
                 main rt eof s = (send rt r @ fst (main rt eof rest), snd (main rt eof rest))))"
proof -
  have u: "handle rt (JObj d) =
      Inr (Some (error_response (dict_get d ''id'') (- 32000)
        (''Unknown tool: '' @ format_value rt (dict_get_default p ''name'' (JStr [])))))"
    if "dict_get_default d ''params'' (JObj []) = JObj p"
      and "dict_get_default p ''name'' (JStr []) \<notin> set tool_names" for p
    using assms that
    by (simp add: handle_dict call_from_params_def tool_call_unknown reply_if_def str_exc_def)
  have f: "handle rt (JObj d) =
      Inr (Some (error_response (dict_get d ''id'') (- 32000) (str_exc rt e)))"
    if "call_from_params rt (dict_get_default d ''params'' (JObj [])) = Inl e" for e
    using assms that by (simp add: handle_dict reply_if_def)
  have "\<exists>r. handle rt (JObj d) = Inr (Some r)
      \<and> ((\<exists>result. r = result_response (dict_get d ''id'') result)
           \<or> (\<exists>message. r = error_response (dict_get d ''id'') (- 32000) message))"
    using assms
    by (cases "call_from_params rt (dict_get_default d ''params'' (JObj []))")
      (auto simp: handle_dict reply_if_def)
  then obtain r where r: "handle rt (JObj d) = Inr (Some r)"
    and k: "(\<exists>result. r = result_response (dict_get d ''id'') result)
           \<or> (\<exists>message. r = error_response (dict_get d ''id'') (- 32000) message)"
    by blast
  have m: "main rt eof s = (send rt r @ fst (main rt eof rest), snd (main rt eof rest))"
    if "read_message rt eof s = (Return (JObj d), rest)" for eof s rest
    using main_step [OF that _ r] by simp
  from u f r k m show ?thesis
    unfolding error_response_def result_response_def by blast
qed

theorem unknown_tool_error_witness:
  "(let d = [(''jsonrpc'', JStr ''2.0''), (''id'', JInt 7), (''method'', JStr ''tools/call''),
             (''params'', JObj [(''name'', JStr ''horn'')])];
        rt = table_env [(JObj d, ''call'')]
    in dict_get d ''method'' = JStr ''tools/call'' \<and> dict_get d ''id'' \<noteq> JNull
       \<and> dict_get_default d ''params'' (JObj []) = JObj [(''name'', JStr ''horn'')]
       \<and> JStr ''horn'' \<notin> set tool_names
       \<and> handle rt (JObj d) =
           Inr (Some (JObj [(''jsonrpc'', JStr ''2.0''), (''id'', JInt 7),
                            (''error'', JObj [(''code'', JInt (- 32000)),
                                              (''message'', JStr ''Unknown tool: horn'')])]))
       \<and> read_message rt True (send rt (JObj d)) = (Return (JObj d), [])
       \<and> main rt True (send rt (JObj d))
           = (send rt (JObj [(''jsonrpc'', JStr ''2.0''), (''id'', JInt 7),
                             (''error'', JObj [(''code'', JInt (- 32000)),
                                               (''message'', JStr ''Unknown tool: horn'')])]),
              Exited))
   \<and> (let d = [(''id'', JInt 8), (''method'', JStr ''tools/call''),
                (''params'', JObj [(''name'', JStr ''maintenance''),
                                   (''arguments'', JObj [(''current_mileage'', JStr ''far'')])])];
           rt = table_env []
       in dict_get d ''method'' = JStr ''tools/call'' \<and> dict_get d ''id'' \<noteq> JNull
          \<and> call_from_params rt (dict_get_default d ''params'' (JObj [])) = Inl TypeError
          \<and> handle rt (JObj d) =
              Inr (Some (JObj [(''jsonrpc'', JStr ''2.0''), (''id'', JInt 8),
                               (''error'', JObj [(''code'', JInt (- 32000)),
                                                 (''message'', JStr ''error'')])])))"
proof -
  define d2 where "d2 = [(''id'', JInt 8), (''method'', JStr ''tools/call''),
                (''params'', JObj [(''name'', JStr ''maintenance''),
                                   (''arguments'', JObj [(''current_mileage'', JStr ''far'')])])]"
  have b: "dict_get d2 ''method'' = JStr ''tools/call''" "dict_get d2 ''id'' \<noteq> JNull"
    "dict_get d2 ''id'' = JInt 8"
    "call_from_params (table_env []) (dict_get_default d2 ''params'' (JObj [])) = Inl TypeError"
    by (simp_all add: d2_def dict_get_def dict_get_default_def call_from_params_def truthy_def
        tool_call_def arguments_get_def call_with_def maintenance_def greater_than_def)
  from unknown_tool_error [OF b(1,2), of "table_env []"] b
  have h2: "handle (table_env []) (JObj d2) =
      Inr (Some (JObj [(''jsonrpc'', JStr ''2.0''), (''id'', JInt 8),
                       (''error'', JObj [(''code'', JInt (- 32000)),
                                         (''message'', JStr ''error'')])]))"
    by (simp add: str_exc_def table_env_def)
  define d where "d = [(''jsonrpc'', JStr ''2.0''), (''id'', JInt 7), (''method'', JStr ''tools/call''),
             (''params'', JObj [(''name'', JStr ''horn'')])]"
  define rt where "rt = table_env [(JObj d, ''call'')]"
  have a: "dict_get d ''method'' = JStr ''tools/call''" "dict_get d ''id'' \<noteq> JNull"
    "dict_get d ''id'' = JInt 7"
    "dict_get_default d ''params'' (JObj []) = JObj [(''name'', JStr ''horn'')]"
    "dict_get_default [(''name'', JStr ''horn'')] ''name'' (JStr []) = JStr ''horn''"
    "JStr ''horn'' \<notin> set tool_names"
    by (simp_all add: d_def dict_get_def dict_get_default_def tool_names_def TOOLS_def)
  have f: "faithful rt (JObj d)"
    by (simp add: rt_def faithful_def table_env_def allocate_def)
  have rm: "read_message rt True (send rt (JObj d)) = (Return (JObj d), [])"
    using read_message_frame [OF f, of True "[]"] by simp
  note t = unknown_tool_error [OF a(1,2), of rt]
  from t a have h: "handle rt (JObj d) =
      Inr (Some (JObj [(''jsonrpc'', JStr ''2.0''), (''id'', JInt 7),
                       (''error'', JObj [(''code'', JInt (- 32000)),
                                         (''message'', JStr ''Unknown tool: horn'')])]))"
    by (simp add: format_value_def)
  from t obtain r where r: "handle rt (JObj d) = Inr (Some r)"
    and m: "\<And>eof s rest. read_message rt eof s = (Return (JObj d), rest) \<Longrightarrow>
              main rt eof s = (send rt r @ fst (main rt eof rest), snd (main rt eof rest))"
    by blast
  from r h have re: "r = JObj [(''jsonrpc'', JStr ''2.0''), (''id'', JInt 7),
                       (''error'', JObj [(''code'', JInt (- 32000)),
                                         (''message'', JStr ''Unknown tool: horn'')])]"
    by simp
  have "main rt True (send rt (JObj d))
        = (send rt (JObj [(''jsonrpc'', JStr ''2.0''), (''id'', JInt 7),
                       (''error'', JObj [(''code'', JInt (- 32000)),
                                         (''message'', JStr ''Unknown tool: horn'')])]), Exited)"
    using m [OF rm] by (simp add: re main_empty)
  with a h rm b h2 show ?thesis
    unfolding Let_def d_def [symmetric] rt_def [symmetric] d2_def [symmetric] by simp
qed

subsection \<open>Unknown methods, and frames without an id\<close>

text \<open>
  Claim C5. A frame that carries an id and whose method is none of \<open>initialize\<close>,
  \<open>notifications/initialized\<close>, \<open>tools/list\<close>, \<open>tools/call\<close> is answered with the error
  response of code -32601 and message \<open>Method not found: <method>\<close>, written out here as
  the dictionary the server sends. A frame without an id (the key is absent or \<open>null\<close>) is
  answered with nothing: the output of \<open>main\<close> is what it writes for the frames that
  follow. The server sends a response only for a dictionary that carries an id.
\<close>

theorem method_not_found:
  "(dict_get d ''id'' \<noteq> JNull
      \<and> dict_get d ''method'' \<notin> set [JStr ''initialize'', JStr ''notifications/initialized'',
                                         JStr ''tools/list'', JStr ''tools/call''] \<longrightarrow>
      handle rt (JObj d) =
        Inr (Some (JObj
          [(''jsonrpc'', JStr ''2.0''), (''id'', dict_get d ''id''),
           (''error'',
              JObj [(''code'', JInt (- 32601)),
                    (''message'',
                       JStr (''Method not found: '' @ format_value rt (dict_get d ''method'')))])]))
      \<and> (\<forall>eof s rest. read_message rt eof s = (Return (JObj d), rest) \<longrightarrow>
            fst (main rt eof s) =
              send rt (JObj
                [(''jsonrpc'', JStr ''2.0''), (''id'', dict_get d ''id''),
                 (''error'',
                    JObj [(''code'', JInt (- 32601)),
                          (''message'',
                             JStr (''Method not found: ''
                                   @ format_value rt (dict_get d ''method'')))])])
              @ fst (main rt eof rest)))
   \<and> (dict_get d ''id'' = JNull \<longrightarrow>
      handle rt (JObj d) = Inr None
      \<and> (\<forall>eof s rest. read_message rt eof s = (Return (JObj d), rest) \<longrightarrow>
            main rt eof s = main rt eof rest))
   \<and> (\<forall>r. handle rt v = Inr (Some r) \<longrightarrow> (\<exists>d'. v = JObj d' \<and> dict_get d' ''id'' \<noteq> JNull))"
proof -
  have a: "handle rt (JObj d) =
      Inr (Some (error_response (dict_get d ''id'') (- 32601)
        (''Method not found: '' @ format_value rt (dict_get d ''method''))))"
    if "dict_get d ''id'' \<noteq> JNull"
      and "dict_get d ''method'' \<notin> set [JStr ''initialize'', JStr ''notifications/initialized'',
                                         JStr ''tools/list'', JStr ''tools/call'']"
    using that by (simp add: handle_dict reply_if_def)
  have b: "handle rt (JObj d') = Inr None" if "dict_get d' ''id'' = JNull" for d'
    using that by (simp add: handle_dict reply_if_def split: sum.splits)
  have c: "\<exists>d'. v = JObj d' \<and> dict_get d' ''id'' \<noteq> JNull" if "handle rt v = Inr (Some r)" for r
  proof (cases v)
    case (JObj d')
    with that b [of d'] show ?thesis by (cases "dict_get d' ''id'' = JNull") auto
  qed (use that in \<open>simp_all add: handle_def\<close>)
  show ?thesis
    using a b [of d] c unfolding error_response_def by (auto dest: main_step)
qed

theorem method_not_found_witness:
  "(let d = [(''jsonrpc'', JStr ''2.0''), (''id'', JInt 3), (''method'', JStr ''ping'')];
        n = [(''jsonrpc'', JStr ''2.0''), (''method'', JStr ''ping'')];
        rt = table_env [(JObj d, ''request''), (JObj n, ''note'')]
    in dict_get d ''id'' \<noteq> JNull
       \<and> dict_get d ''method'' \<notin> set [JStr ''initialize'', JStr ''notifications/initialized'',
                                          JStr ''tools/list'', JStr ''tools/call'']
       \<and> handle rt (JObj d) =
           Inr (Some (JObj [(''jsonrpc'', JStr ''2.0''), (''id'', JInt 3),
                            (''error'', JObj [(''code'', JInt (- 32601)),
                                              (''message'', JStr ''Method not found: ping'')])]))
       \<and> read_message rt True (send rt (JObj d)) = (Return (JObj d), [])
       \<and> fst (main rt True (send rt (JObj d))) =
           send rt (JObj [(''jsonrpc'', JStr ''2.0''), (''id'', JInt 3),
                          (''error'', JObj [(''code'', JInt (- 32601)),
                                            (''message'', JStr ''Method not found: ping'')])])
       \<and> dict_get n ''id'' = JNull
       \<and> handle rt (JObj n) = Inr None
       \<and> read_message rt True (send rt (JObj n)) = (Return (JObj n), [])
       \<and> main rt True (send rt (JObj n)) = ([], Exited)
       \<and> (\<exists>d'. JObj d = JObj d' \<and> dict_get d' ''id'' \<noteq> JNull))"
proof -
  define d where "d = [(''jsonrpc'', JStr ''2.0''), (''id'', JInt 3), (''method'', JStr ''ping'')]"
  define n where "n = [(''jsonrpc'', JStr ''2.0''), (''method'', JStr ''ping'')]"
  define rt where "rt = table_env [(JObj d, ''request''), (JObj n, ''note'')]"
  have a: "dict_get d ''id'' \<noteq> JNull" "dict_get d ''id'' = JInt 3"
    "dict_get d ''method'' = JStr ''ping''"
    "dict_get d ''method'' \<notin> set [JStr ''initialize'', JStr ''notifications/initialized'',
                                          JStr ''tools/list'', JStr ''tools/call'']"
    "dict_get n ''id'' = JNull"
    by (simp_all add: d_def n_def dict_get_def)
  have f: "faithful rt (JObj d)" "faithful rt (JObj n)"
    by (simp_all add: rt_def faithful_def table_env_def allocate_def d_def n_def)
  have rd: "read_message rt True (send rt (JObj d)) = (Return (JObj d), [])"
    using read_message_frame [OF f(1), of True "[]"] by simp
  have rn: "read_message rt True (send rt (JObj n)) = (Return (JObj n), [])"
    using read_message_frame [OF f(2), of True "[]"] by simp
  note t = method_not_found [of d rt "JObj d"]
  note u = method_not_found [of n rt "JObj n"]
  from t a have h: "handle rt (JObj d) =
      Inr (Some (JObj [(''jsonrpc'', JStr ''2.0''), (''id'', JInt 3),
                       (''error'', JObj [(''code'', JInt (- 32601)),
                                         (''message'', JStr ''Method not found: ping'')])]))"
    by (simp add: format_value_def)
  from t a rd have m: "fst (main rt True (send rt (JObj d))) =
      send rt (JObj [(''jsonrpc'', JStr ''2.0''), (''id'', JInt 3),
                     (''error'', JObj [(''code'', JInt (- 32601)),
                                       (''message'', JStr ''Method not found: ping'')])])"
    by (simp add: format_value_def main_empty)
  from u a have hn: "handle rt (JObj n) = Inr None" by simp
  from u a rn have mn: "main rt True (send rt (JObj n)) = ([], Exited)"
    by (simp add: main_empty)
  from a h m hn mn rd rn show ?thesis
    unfolding Let_def d_def [symmetric] n_def [symmetric] rt_def [symmetric] by simp
qed

subsection \<open>Default arguments\<close>

text \<open>
  Claim C8. When \<open>params.arguments\<close> of a \<open>tools/call\<close> request is absent or \<open>null\<close>, the
  tool named is called with the empty dictionary. With the empty dictionary each of the
  seven handlers runs its service on the default written in \<open>_tool_call\<close> (\<open>P0301\<close>,
  \<open>Office\<close>, \<open>city\<close>, 42000, \<open>low\<close>, \<open>P0301\<close>, \<open>DEMO-VIN-123\<close>), the service returns, and the
  call returns its result as text content; so a call of a registered tool without
  arguments never fails.
\<close>

theorem default_arguments:
  assumes "map_of p ''arguments'' = None \<or> map_of p ''arguments'' = Some JNull"
  shows "call_from_params rt (JObj p) = tool_call rt (dict_get_default p ''name'' (JStr [])) (JObj [])
       \<and> (\<exists>r. diagnostics rt (JStr ''P0301'') = Inr r
              \<and> tool_call rt (JStr ''diagnostics'') (JObj []) = Inr (text_content rt r))
       \<and> (\<exists>r. navigation (JStr ''Office'') = Inr r
              \<and> tool_call rt (JStr ''navigation'') (JObj []) = Inr (text_content rt r))
       \<and> (\<exists>r. weather (JStr ''city'') = Inr r
              \<and> tool_call rt (JStr ''weather'') (JObj []) = Inr (text_content rt r))
       \<and> (\<exists>r. maintenance (JInt 42000) = Inr r
              \<and> tool_call rt (JStr ''maintenance'') (JObj []) = Inr (text_content rt r))
       \<and> (\<exists>r. emergency (JStr ''low'') = Inr r
              \<and> tool_call rt (JStr ''emergency'') (JObj []) = Inr (text_content rt r))
       \<and> (\<exists>r. knowledge (JStr ''P0301'') = Inr r
              \<and> tool_call rt (JStr ''knowledge'') (JObj []) = Inr (text_content rt r))
       \<and> (\<exists>r. vehicle_info (JStr ''DEMO-VIN-123'') = Inr r
              \<and> tool_call rt (JStr ''vehicle_info'') (JObj []) = Inr (text_content rt r))
       \<and> (dict_get_default p ''name'' (JStr []) \<in> set tool_names \<longrightarrow>
            (\<exists>r. call_from_params rt (JObj p) = Inr (text_content rt r)))"
proof -
  have c: "call_from_params rt (JObj p) = tool_call rt (dict_get_default p ''name'' (JStr [])) (JObj [])"
    using assms by (auto simp: call_from_params_def dict_get_default_def truthy_def)
  have s: "\<exists>r. diagnostics rt (JStr ''P0301'') = Inr r
              \<and> tool_call rt (JStr ''diagnostics'') (JObj []) = Inr (text_content rt r)"
    "\<exists>r. navigation (JStr ''Office'') = Inr r
              \<and> tool_call rt (JStr ''navigation'') (JObj []) = Inr (text_content rt r)"
    "\<exists>r. weather (JStr ''city'') = Inr r
              \<and> tool_call rt (JStr ''weather'') (JObj []) = Inr (text_content rt r)"
    "\<exists>r. maintenance (JInt 42000) = Inr r
              \<and> tool_call rt (JStr ''maintenance'') (JObj []) = Inr (text_content rt r)"
    "\<exists>r. emergency (JStr ''low'') = Inr r
              \<and> tool_call rt (JStr ''emergency'') (JObj []) = Inr (text_content rt r)"
    "\<exists>r. knowledge (JStr ''P0301'') = Inr r
              \<and> tool_call rt (JStr ''knowledge'') (JObj []) = Inr (text_content rt r)"
    "\<exists>r. vehicle_info (JStr ''DEMO-VIN-123'') = Inr r
              \<and> tool_call rt (JStr ''vehicle_info'') (JObj []) = Inr (text_content rt r)"
    using services_on_defaults(1) [of rt] services_on_defaults(2-7)
    by (auto simp: tool_call_defaults)
  have n: "\<exists>r. call_from_params rt (JObj p) = Inr (text_content rt r)"
    if "dict_get_default p ''name'' (JStr []) \<in> set tool_names"
  proof -
    from that have "dict_get_default p ''name'' (JStr []) \<in> set [JStr ''diagnostics'', JStr ''navigation'',
        JStr ''weather'', JStr ''maintenance'', JStr ''emergency'', JStr ''knowledge'',
        JStr ''vehicle_info'']"
      by (simp add: tool_names_def TOOLS_def)
    with s show ?thesis unfolding c by auto
  qed
  from c s n show ?thesis by blast
qed

theorem default_arguments_witness:
  "(let p = [(''name'', JStr ''maintenance''), (''arguments'', JNull)];
        rt = table_env []
    in (map_of p ''arguments'' = None \<or> map_of p ''arguments'' = Some JNull)
       \<and> dict_get_default p ''name'' (JStr []) \<in> set tool_names
       \<and> call_from_params rt (JObj p) =
           Inr (text_content rt
             (JObj [(''service'', JStr ''Maintenance''),
                    (''mileage'', JInt 42000),
                    (''overdue_items'', JArr [JStr ''brake fluid'', JStr ''air filter'']),
                    (''recommended_window_days'', JInt 7)])))"
proof -
  define p where "p = [(''name'', JStr ''maintenance''), (''arguments'', JNull)]"
  have a: "map_of p ''arguments'' = None \<or> map_of p ''arguments'' = Some JNull"
    "dict_get_default p ''name'' (JStr []) = JStr ''maintenance''"
    "JStr ''maintenance'' \<in> set tool_names"
    by (simp_all add: p_def dict_get_default_def tool_names_def TOOLS_def)
  have m: "maintenance (JInt 42000) =
      Inr (JObj [(''service'', JStr ''Maintenance''),
                 (''mileage'', JInt 42000),
                 (''overdue_items'', JArr [JStr ''brake fluid'', JStr ''air filter'']),
                 (''recommended_window_days'', JInt 7)])"
    by (simp add: maintenance_def greater_than_def)
  note t = default_arguments [OF a(1), of "table_env []"]
  from t obtain r where r: "maintenance (JInt 42000) = Inr r"
    and c: "tool_call (table_env []) (JStr ''maintenance'') (JObj []) = Inr (text_content (table_env []) r)"
    by blast
  from t have "call_from_params (table_env []) (JObj p)
      = tool_call (table_env []) (dict_get_default p ''name'' (JStr [])) (JObj [])"
    by blast
  with a c r m have "call_from_params (table_env []) (JObj p) =
           Inr (text_content (table_env [])
             (JObj [(''service'', JStr ''Maintenance''),
                    (''mileage'', JInt 42000),
                    (''overdue_items'', JArr [JStr ''brake fluid'', JStr ''air filter'']),
                    (''recommended_window_days'', JInt 7)]))"
    by simp
  with a show ?thesis
    unfolding Let_def p_def [symmetric] by simp
qed

subsection \<open>The maintenance scenario\<close>

text \<open>
  Claim C9. The maintenance service at mileage 45000 returns the overdue items
  \<open>brake fluid\<close> and \<open>air filter\<close> (a non-empty list) and \<open>recommended_window_days = 7\<close>.
  \<open>_tool_call\<close> of \<open>maintenance\<close> with \<open>{"current_mileage": 45000}\<close> returns the dictionary
  whose one content item is the text \<open>json.dumps\<close> writes for that result, with
  \<open>isError\<close> false; and the server answers a \<open>tools/call\<close> request for it, with any id \<open>k\<close>,
  by the response whose \<open>result\<close> is that dictionary.
\<close>

theorem maintenance_45000:
  "maintenance (JInt 45000) =
     Inr (JObj [(''service'', JStr ''Maintenance''),
                (''mileage'', JInt 45000),
                (''overdue_items'', JArr [JStr ''brake fluid'', JStr ''air filter'']),
                (''recommended_window_days'', JInt 7)])
   \<and> tool_call rt (JStr ''maintenance'') (JObj [(''current_mileage'', JInt 45000)]) =
       Inr (JObj
         [(''content'',
             JArr [JObj [(''type'', JStr ''text''),
                         (''text'',
                            JStr (dumps rt
                              (JObj [(''service'', JStr ''Maintenance''),
                                     (''mileage'', JInt 45000),
                                     (''overdue_items'', JArr [JStr ''brake fluid'', JStr ''air filter'']),
                                     (''recommended_window_days'', JInt 7)])))]]),
          (''isError'', JBool False)])
   \<and> handle rt
         (JObj [(''jsonrpc'', JStr ''2.0''), (''id'', JInt k), (''method'', JStr ''tools/call''),
                (''params'',
                   JObj [(''name'', JStr ''maintenance''),
                         (''arguments'', JObj [(''current_mileage'', JInt 45000)])])]) =
       Inr (Some (JObj
         [(''jsonrpc'', JStr ''2.0''), (''id'', JInt k),
          (''result'',
             JObj
               [(''content'',
                   JArr [JObj [(''type'', JStr ''text''),
                               (''text'',
                                  JStr (dumps rt
                                    (JObj [(''service'', JStr ''Maintenance''),
                                           (''mileage'', JInt 45000),
                                           (''overdue_items'',
                                              JArr [JStr ''brake fluid'', JStr ''air filter'']),
                                           (''recommended_window_days'', JInt 7)])))]]),
                (''isError'', JBool False)])]))"
proof -
  have m: "maintenance (JInt 45000) =
     Inr (JObj [(''service'', JStr ''Maintenance''),
                (''mileage'', JInt 45000),
                (''overdue_items'', JArr [JStr ''brake fluid'', JStr ''air filter'']),
                (''recommended_window_days'', JInt 7)])"
    by (simp add: maintenance_def greater_than_def)
  have t: "tool_call rt (JStr ''maintenance'') (JObj [(''current_mileage'', JInt 45000)]) =
       Inr (text_content rt
         (JObj [(''service'', JStr ''Maintenance''),
                (''mileage'', JInt 45000),
                (''overdue_items'', JArr [JStr ''brake fluid'', JStr ''air filter'']),
                (''recommended_window_days'', JInt 7)]))"
    by (simp add: tool_call_def arguments_get_def call_with_def dict_get_default_def m)
  have h: "handle rt
         (JObj [(''jsonrpc'', JStr ''2.0''), (''id'', JInt k), (''method'', JStr ''tools/call''),
                (''params'',
                   JObj [(''name'', JStr ''maintenance''),
                         (''arguments'', JObj [(''current_mileage'', JInt 45000)])])]) =
       Inr (Some (result_response (JInt k)
         (text_content rt
           (JObj [(''service'', JStr ''Maintenance''),
                  (''mileage'', JInt 45000),
                  (''overdue_items'', JArr [JStr ''brake fluid'', JStr ''air filter'']),
                  (''recommended_window_days'', JInt 7)]))))"
    by (simp add: handle_dict dict_get_def dict_get_default_def
        call_from_params_def truthy_def reply_if_def t)
  from m t h show ?thesis
    unfolding text_content_def result_response_def by (intro conjI)
qed

section \<open>The connection\<close>

subsection \<open>What a call changes\<close>

lemma main_one_frame:
  assumes "faithful rt payload" and "handle rt payload = Inr reply"
  shows "main rt False (send rt payload) =
           ((case reply of None \<Rightarrow> [] | Some r \<Rightarrow> send rt r), Waiting [])"
proof -
  have "read_message rt False (send rt payload) = (Return payload, [])"
    using read_message_frame [OF assms(1), of False "[]"] by simp
  moreover have "payload \<noteq> JNull"
    using assms(2) by (auto simp: handle_def)
  ultimately show ?thesis
    using main_step [of rt False "send rt payload" payload "[]" reply] assms(2)
    by (simp add: main_empty)
qed

lemma client_send_next_id: "next_id (snd (client_send rt w payload)) = next_id w"
  by (simp add: client_send_def split: status.splits prod.splits)

lemma client_recv_next_id: "next_id (snd (client_recv rt w)) = next_id w"
  by (simp add: client_recv_def split: prod.splits)

lemma client_recv_sent: "sent (snd (client_recv rt w)) = sent w"
  by (simp add: client_recv_def split: prod.splits)

lemma client_recv_server: "server (snd (client_recv rt w)) = server w"
  by (simp add: client_recv_def split: prod.splits)

lemma client_send_alive:
  "server w = Waiting pending \<Longrightarrow>
   fst (client_send rt w payload) = Return ()
   \<and> sent (snd (client_send rt w payload)) = sent w @ [payload]"
  by (simp add: client_send_def split: prod.splits)

lemma client_send_gone:
  "\<forall>pending. server w \<noteq> Waiting pending \<Longrightarrow>
   client_send rt w payload = (Raise BrokenPipeError, w)"
  by (cases "server w") (simp_all add: client_send_def)

lemma request_response_next_id:
  "next_id (snd (request_response rt w method params)) = next_id w + 1"
proof -
  let ?w1 = "w\<lparr>next_id := next_id w + 1\<rparr>"
  let ?p = "request_payload (next_id w) method params"
  obtain r w2 where s: "client_send rt ?w1 ?p = (r, w2)" by (cases "client_send rt ?w1 ?p")
  have n2: "next_id w2 = next_id w + 1"
    using client_send_next_id [of rt ?w1 ?p] s by simp
  show ?thesis
    using s n2 client_recv_next_id [of rt w2]
    by (cases r) (simp_all add: request_response_def Let_def)
qed

lemma request_snd: "snd (request rt w method params) = snd (request_response rt w method params)"
  by (auto simp: request_def split: prod.splits outcome.splits)

lemma request_next_id: "next_id (snd (request rt w method params)) = next_id w + 1"
  by (simp add: request_snd request_response_next_id)

lemma notify_next_id: "next_id (snd (notify rt w method params)) = next_id w"
  by (simp add: notify_def client_send_next_id)

lemma request_response_sent:
  "sent (snd (request_response rt w method params)) =
     (case server w of
        Waiting _ \<Rightarrow> sent w @ [request_payload (next_id w) method params]
      | _ \<Rightarrow> sent w)"
proof -
  let ?w1 = "w\<lparr>next_id := next_id w + 1\<rparr>"
  let ?p = "request_payload (next_id w) method params"
  show ?thesis
  proof (cases "\<exists>pending. server w = Waiting pending")
    case True
    then obtain pending where a: "server ?w1 = Waiting pending" "server w = Waiting pending" by auto
    obtain r w2 where s: "client_send rt ?w1 ?p = (r, w2)" by (cases "client_send rt ?w1 ?p")
    with client_send_alive [OF a(1), of rt ?p] have "r = Return ()" "sent w2 = sent w @ [?p]"
      by simp_all
    then show ?thesis
      using s a client_recv_sent [of rt w2] by (simp add: request_response_def Let_def)
  next
    case False
    then have g: "\<forall>pending. server ?w1 \<noteq> Waiting pending" by simp
    from False show ?thesis
      by (cases "server w") (simp_all add: request_response_def Let_def client_send_gone [OF g])
  qed
qed

lemma request_response_gone:
  "\<forall>pending. server w \<noteq> Waiting pending \<Longrightarrow>
   \<forall>pending. server (snd (request_response rt w method params)) \<noteq> Waiting pending"
proof -
  assume a: "\<forall>pending. server w \<noteq> Waiting pending"
  then have g: "\<forall>pending. server (w\<lparr>next_id := next_id w + 1\<rparr>) \<noteq> Waiting pending" by simp
  show ?thesis
    using a by (simp add: request_response_def Let_def client_send_gone [OF g])
qed

lemma notify_sent:
  "sent (snd (notify rt w method params)) =
     (case server w of Waiting _ \<Rightarrow> sent w @ [notify_payload method params] | _ \<Rightarrow> sent w)"
  by (cases "server w") (simp_all add: notify_def client_send_def split: prod.splits)

lemma notify_gone:
  "\<forall>pending. server w \<noteq> Waiting pending \<Longrightarrow>
   \<forall>pending. server (snd (notify rt w method params)) \<noteq> Waiting pending"
  by (simp add: notify_def client_send_gone)

lemma payload_ids_append: "payload_ids (ps @ qs) = payload_ids ps @ payload_ids qs"
  by (simp add: payload_ids_def)

lemma payload_ids_single:
  "payload_ids [request_payload k method params] = [JInt k]"
  "payload_ids [notify_payload method params] = []"
  by (simp_all add: payload_ids_def request_payload_def notify_payload_def)


lemma upto_snoc: "0 \<le> j \<Longrightarrow> [1 .. j] @ [j + 1] = [1 .. j + 1]"
  using upto_rec2 [of 1 "j + 1"] by simp

lemma request_keeps_numbering:
  assumes "payload_ids (sent w) = map JInt [1 .. j]" and "0 \<le> j" and "j < next_id w"
      and "(\<exists>pending. server w = Waiting pending) \<longrightarrow> j + 1 = next_id w"
  shows "\<exists>j'. payload_ids (sent (snd (request rt w method params))) = map JInt [1 .. j'] \<and> 0 \<le> j'
           \<and> j' < next_id (snd (request rt w method params))
           \<and> ((\<exists>pending. server (snd (request rt w method params)) = Waiting pending) \<longrightarrow>
                j' + 1 = next_id (snd (request rt w method params)))"
proof (cases "\<exists>pending. server w = Waiting pending")
  case True
  then obtain pending where a: "server w = Waiting pending" by blast
  with assms have n: "next_id w = j + 1" by auto
  have "payload_ids (sent (snd (request rt w method params))) = map JInt [1 .. j] @ [JInt (j + 1)]"
    using a assms(1) n
    by (simp add: request_snd request_response_sent payload_ids_append payload_ids_single)
  also have "\<dots> = map JInt [1 .. j + 1]"
    using upto_snoc [OF assms(2)] by (metis list.simps(8,9) map_append)
  finally show ?thesis
    using assms(2) n by (intro exI [of _ "j + 1"]) (simp add: request_next_id)
next
  case False
  then have g: "\<forall>pending. server w \<noteq> Waiting pending" by blast
  have s: "sent (snd (request rt w method params)) = sent w"
    using g by (cases "server w") (simp_all add: request_snd request_response_sent)
  show ?thesis
    using assms request_response_gone [OF g, of rt "method" "params"]
    by (intro exI [of _ j]) (simp add: s [unfolded request_snd] request_snd request_response_next_id)
qed

lemma notify_keeps_numbering:
  assumes "payload_ids (sent w) = map JInt [1 .. j]" and "0 \<le> j" and "j < next_id w"
      and "(\<exists>pending. server w = Waiting pending) \<longrightarrow> j + 1 = next_id w"
  shows "payload_ids (sent (snd (notify rt w method params))) = map JInt [1 .. j]
           \<and> j < next_id (snd (notify rt w method params))
           \<and> ((\<exists>pending. server (snd (notify rt w method params)) = Waiting pending) \<longrightarrow>
                j + 1 = next_id (snd (notify rt w method params)))"
proof (cases "\<exists>pending. server w = Waiting pending")
  case True
  then obtain pending where a: "server w = Waiting pending" by blast
  show ?thesis
    using a assms
    by (simp add: notify_sent notify_next_id payload_ids_append payload_ids_single)
next
  case False
  then have g: "\<forall>pending. server w \<noteq> Waiting pending" by blast
  have s: "sent (snd (notify rt w method params)) = sent w"
    using g by (cases "server w") (simp_all add: notify_sent)
  show ?thesis
    using assms notify_gone [OF g, of rt "method" "params"]
    by (simp add: s notify_next_id)
qed

lemma run_calls_numbering:
  "payload_ids (sent w) = map JInt [1 .. j] \<Longrightarrow> 0 \<le> j \<Longrightarrow> j < next_id w \<Longrightarrow>
   (\<exists>pending. server w = Waiting pending) \<longrightarrow> j + 1 = next_id w \<Longrightarrow>
   \<exists>j'. payload_ids (sent (run_calls rt w cs)) = map JInt [1 .. j'] \<and> 0 \<le> j'
        \<and> j' < next_id (run_calls rt w cs)"
proof (induction cs arbitrary: w j)
  case Nil
  then show ?case by auto
next
  case (Cons c cs)
  show ?case
  proof (cases c)
    case (Request name params)
    obtain r w' where e: "request rt w name params = (r, w')"
      by (cases "request rt w name params")
    from request_keeps_numbering [OF Cons.prems, of rt name params] e
    obtain j' where k: "payload_ids (sent w') = map JInt [1 .. j']" "0 \<le> j'" "j' < next_id w'"
      "(\<exists>pending. server w' = Waiting pending) \<longrightarrow> j' + 1 = next_id w'"
      by auto
    show ?thesis
    proof (cases r)
      case Blocks
      with e k Request show ?thesis by auto
    next
      case (Return v)
      with e Request Cons.IH [OF k] show ?thesis by simp
    next
      case (Raise x)
      with e Request Cons.IH [OF k] show ?thesis by simp
    qed
  next
    case (Notify name params)
    obtain r w' where e: "notify rt w name params = (r, w')"
      by (cases "notify rt w name params")
    from notify_keeps_numbering [OF Cons.prems, of rt name params] e
    have k: "payload_ids (sent w') = map JInt [1 .. j]" "0 \<le> j" "j < next_id w'"
      "(\<exists>pending. server w' = Waiting pending) \<longrightarrow> j + 1 = next_id w'"
      using Cons.prems(2) by auto
    show ?thesis
    proof (cases r)
      case Blocks
      with e k Notify show ?thesis by auto
    next
      case (Return v)
      with e Notify Cons.IH [OF k] show ?thesis by simp
    next
      case (Raise x)
      with e Notify Cons.IH [OF k] show ?thesis by simp
    qed
  qed
qed

text \<open>
  Claim C7. The counter of a new connection is 1. Every call of \<open>request\<close> adds one to
  it, however the call ends, and \<open>notify\<close> leaves it as it is. A request writes its
  payload with the value the counter had before the call as its id (nothing is written
  once the server is gone), and a notification writes a payload without an id. So after
  any sequence of calls on a new connection the ids of the requests written are
  1, 2, ..., j in this order, whatever notifications stand between them.
\<close>

theorem request_id_counter:
  "next_id connect = 1
   \<and> next_id (snd (request rt w method params)) = next_id w + 1
   \<and> next_id (snd (notify rt w method params)) = next_id w
   \<and> sent (snd (request rt w method params)) =
       (case server w of
          Waiting _ \<Rightarrow> sent w @ [request_payload (next_id w) method params]
        | _ \<Rightarrow> sent w)
   \<and> payload_ids [request_payload (next_id w) method params] = [JInt (next_id w)]
   \<and> payload_ids [notify_payload method params] = []
   \<and> (\<exists>j. payload_ids (sent (run_calls rt connect cs)) = map JInt [1 .. j]
           \<and> j < next_id (run_calls rt connect cs))"
proof -
  have "\<exists>j'. payload_ids (sent (run_calls rt connect cs)) = map JInt [1 .. j'] \<and> 0 \<le> j'
        \<and> j' < next_id (run_calls rt connect cs)"
    by (rule run_calls_numbering [where j = 0]) (simp_all add: connect_def payload_ids_def)
  then show ?thesis
    by (auto simp: connect_def request_response_next_id notify_next_id request_snd
        request_response_sent payload_ids_single)
qed

subsection \<open>Requests on a connection at rest\<close>

lemma client_send_quiet:
  assumes "server w = Waiting []" and "faithful rt payload" and "handle rt payload = Inr reply"
  shows "client_send rt w payload =
           (Return (),
            w\<lparr>server := Waiting [],
              stdout_pipe := stdout_pipe w @ (case reply of None \<Rightarrow> [] | Some r \<Rightarrow> send rt r),
              sent := sent w @ [payload]\<rparr>)"
  using assms by (simp add: client_send_def main_one_frame)

lemma request_response_quiet:
  assumes "server w = Waiting []" and "stdout_pipe w = []"
      and "faithful rt (request_payload (next_id w) method params)"
      and "handle rt (request_payload (next_id w) method params) = Inr (Some r)"
      and "faithful rt r"
  shows "request_response rt w method params =
           (Return r,
            w\<lparr>next_id := next_id w + 1, server := Waiting [], stdout_pipe := [],
              sent := sent w @ [request_payload (next_id w) method params]\<rparr>)"
proof -
  let ?w1 = "w\<lparr>next_id := next_id w + 1\<rparr>"
  let ?p = "request_payload (next_id w) method params"
  have s: "client_send rt ?w1 ?p =
      (Return (), ?w1\<lparr>server := Waiting [], stdout_pipe := stdout_pipe ?w1 @ send rt r,
                       sent := sent ?w1 @ [?p]\<rparr>)"
    using client_send_quiet [of ?w1 rt ?p "Some r"] assms by simp
  have c: "client_read rt False (send rt r) = (Return r, [])"
    using client_read_frame [OF assms(5), of False "[]"] by simp
  show ?thesis
    using assms(2) by (simp add: request_response_def Let_def s client_recv_def c)
qed

lemma notify_quiet:
  assumes "server w = Waiting []"
      and "faithful rt (notify_payload method params)"
      and "handle rt (notify_payload method params) = Inr None"
  shows "notify rt w method params =
           (Return (), w\<lparr>server := Waiting [], stdout_pipe := stdout_pipe w,
                         sent := sent w @ [notify_payload method params]\<rparr>)"
  using client_send_quiet [OF assms(1,2,3)] by (simp add: notify_def)

lemma response_id:
  "\<exists>d. result_response i result = JObj d \<and> dict_get d ''id'' = i"
  "\<exists>d. error_response i code message = JObj d \<and> dict_get d ''id'' = i"
  by (simp_all add: result_response_def error_response_def dict_get_def)

lemma handle_answers:
  assumes "dict_get d ''id'' = JInt k" and "dict_get d ''method'' = JStr method"
      and "method \<noteq> ''notifications/initialized''"
  shows "\<exists>d'. handle rt (JObj d) = Inr (Some (JObj d')) \<and> dict_get d' ''id'' = JInt k"
proof -
  have res: ?thesis if "handle rt (JObj d) = Inr (Some (result_response (JInt k) x))" for x
    using that response_id(1) [of "JInt k" x] by auto
  have err: ?thesis if "handle rt (JObj d) = Inr (Some (error_response (JInt k) c m))" for c m
    using that response_id(2) [of "JInt k" c m] by auto
  consider (init) "method = ''initialize''" | (list) "method = ''tools/list''"
    | (call) "method = ''tools/call''"
    | (other) "method \<noteq> ''initialize''" "method \<noteq> ''tools/list''" "method \<noteq> ''tools/call''"
    by blast
  then show ?thesis
  proof cases
    case init
    show ?thesis
      by (rule res) (simp add: handle_dict assms(1,2) init reply_if_def)
  next
    case list
    show ?thesis
      by (rule res) (simp add: handle_dict assms(1,2) list reply_if_def)
  next
    case call
    show ?thesis
    proof (cases "call_from_params rt (dict_get_default d ''params'' (JObj []))")
      case (Inl e)
      show ?thesis
        by (rule err) (simp add: handle_dict assms(1,2) call Inl reply_if_def)
    next
      case (Inr b)
      show ?thesis
        by (rule res) (simp add: handle_dict assms(1,2) call Inr reply_if_def)
    qed
  next
    case other
    show ?thesis
      by (rule err) (simp add: handle_dict assms other reply_if_def)
  qed
qed

lemma handle_request_payload:
  assumes "method \<noteq> ''notifications/initialized''"
  shows "\<exists>d. handle rt (request_payload k method params) = Inr (Some (JObj d))
             \<and> dict_get d ''id'' = JInt k"
proof -
  obtain d where p: "request_payload k method params = JObj d"
    and i: "dict_get d ''id'' = JInt k" and m: "dict_get d ''method'' = JStr method"
    by (simp add: request_payload_def dict_get_def)
  from handle_answers [OF i m assms] p show ?thesis by simp
qed

lemma notification_not_answered:
  "handle rt (notify_payload method params) = Inr None"
  by (simp add: notify_payload_def handle_dict dict_get_def reply_if_def split: sum.splits)


lemma run_requests_quiet:
  assumes "server w = Waiting []" and "stdout_pipe w = []"
      and "\<forall>(method, params) \<in> set reqs. method \<noteq> ''notifications/initialized''"
      and "\<forall>p \<in> set (payloads_from (next_id w) reqs).
             faithful rt p \<and> (\<forall>r. reply_to rt p = Some r \<longrightarrow> faithful rt r)"
  shows "map fst (run_requests rt w reqs) = [next_id w .. next_id w + int (length reqs) - 1]
       \<and> map snd (run_requests rt w reqs) =
           map (\<lambda>p. case reply_to rt p of None \<Rightarrow> Blocks | Some r \<Rightarrow> Return r)
             (payloads_from (next_id w) reqs)
       \<and> (\<forall>(i, r) \<in> set (run_requests rt w reqs).
            \<exists>d. r = Return (JObj d) \<and> dict_get d ''id'' = JInt i)"
  using assms
proof (induction reqs arbitrary: w)
  case Nil
  then show ?case by simp
next
  case (Cons req reqs)
  obtain name params where req: "req = (name, params)" by (cases req)
  let ?p = "request_payload (next_id w) name params"
  from Cons.prems(3) req have m: "name \<noteq> ''notifications/initialized''" by auto
  from handle_request_payload [OF m, of rt "next_id w" params]
  obtain d where h: "handle rt ?p = Inr (Some (JObj d))" and i: "dict_get d ''id'' = JInt (next_id w)"
    by blast
  then have rp: "reply_to rt ?p = Some (JObj d)" by (simp add: reply_to_def)
  from Cons.prems(4) req rp have f: "faithful rt ?p" "faithful rt (JObj d)" by auto
  let ?w' = "w\<lparr>next_id := next_id w + 1, server := Waiting [], stdout_pipe := [],
              sent := sent w @ [?p]\<rparr>"
  have e: "request_response rt w name params = (Return (JObj d), ?w')"
    by (rule request_response_quiet [OF Cons.prems(1,2) f(1) h f(2)])
  have q: "server ?w' = Waiting []" "stdout_pipe ?w' = []" "next_id ?w' = next_id w + 1" by simp_all
  have r3: "\<forall>(method, params) \<in> set reqs. method \<noteq> ''notifications/initialized''"
    using Cons.prems(3) by auto
  have r4: "\<forall>p \<in> set (payloads_from (next_id ?w') reqs).
             faithful rt p \<and> (\<forall>r. reply_to rt p = Some r \<longrightarrow> faithful rt r)"
    using Cons.prems(4) req by simp
  note ih = Cons.IH [OF q(1,2) r3 r4]
  have u: "[next_id w .. next_id w + int (length (req # reqs)) - 1]
      = next_id w # [next_id w + 1 .. next_id w + 1 + int (length reqs) - 1]"
    using upto_rec1 [of "next_id w" "next_id w + int (length (req # reqs)) - 1"] by simp
  have run: "run_requests rt w (req # reqs) = (next_id w, Return (JObj d)) # run_requests rt ?w' reqs"
    by (simp add: req e)
  show ?case
    unfolding run u using ih i by (simp add: req rp)
qed

lemma pairs_of_maps:
  "map fst xs = [a, b] \<Longrightarrow> map snd xs = [c, d] \<Longrightarrow> xs = [(a, c), (b, d)]"
  by (cases xs; cases "tl xs") auto

lemma reply_unknown_method:
  "method \<notin> set [''initialize'', ''notifications/initialized'', ''tools/list'', ''tools/call''] \<Longrightarrow>
   reply_to rt (request_payload k method params)
     = Some (error_response (JInt k) (- 32601) (''Method not found: '' @ method))"
  by (simp add: reply_to_def request_payload_def handle_dict dict_get_def reply_if_def
      format_value_def)

lemma reply_unknown_tool:
  "dict_get_default p ''name'' (JStr []) = JStr name \<Longrightarrow> JStr name \<notin> set tool_names \<Longrightarrow>
   reply_to rt (request_payload k ''tools/call'' (JObj p))
     = Some (error_response (JInt k) (- 32000) (''Unknown tool: '' @ name))"
  by (simp add: reply_to_def request_payload_def handle_dict dict_get_def dict_get_default_def
      reply_if_def call_from_params_def tool_call_unknown str_exc_def format_value_def)

text \<open>
  Claim C2, as the code has it. \<open>N\<close> requests are made one after the other on a new
  connection, none with the method \<open>notifications/initialized\<close> (the one method the server
  never answers), the JSON library being faithful on the payloads and on the server's
  replies. Then every request returns from its read: the ids sent are 1, ..., \<open>N\<close>, the
  \<open>k\<close>-th frame read is the server's reply to the \<open>k\<close>-th request, and the frame read by a
  request has the id that request sent.
\<close>

theorem responses_match_requests:
  assumes "\<forall>(method, params) \<in> set reqs. method \<noteq> ''notifications/initialized''"
      and "\<forall>p \<in> set (payloads_from 1 reqs).
             faithful rt p \<and> (\<forall>r. reply_to rt p = Some r \<longrightarrow> faithful rt r)"
  shows "map fst (run_requests rt connect reqs) = [1 .. int (length reqs)]
       \<and> map snd (run_requests rt connect reqs) =
           map (\<lambda>p. case reply_to rt p of None \<Rightarrow> Blocks | Some r \<Rightarrow> Return r)
             (payloads_from 1 reqs)
       \<and> (\<forall>(i, r) \<in> set (run_requests rt connect reqs).
            \<exists>d. r = Return (JObj d) \<and> dict_get d ''id'' = JInt i)"
proof -
  have c: "server connect = Waiting []" "stdout_pipe connect = []" "next_id connect = 1"
    by (simp_all add: connect_def)
  from run_requests_quiet [of connect reqs rt] c assms show ?thesis by simp
qed

theorem responses_match_requests_witness:
  "run_requests
     (table_env
        [(request_payload 1 ''ping'' JNull, ''q1''),
         (error_response (JInt 1) (- 32601) ''Method not found: ping'', ''a1''),
         (request_payload 2 ''tools/call'' (JObj [(''name'', JStr ''horn'')]), ''q2''),
         (error_response (JInt 2) (- 32000) ''Unknown tool: horn'', ''a2'')])
     connect
     [(''ping'', JNull), (''tools/call'', JObj [(''name'', JStr ''horn'')])]
   = [(1, Return (error_response (JInt 1) (- 32601) ''Method not found: ping'')),
      (2, Return (error_response (JInt 2) (- 32000) ''Unknown tool: horn''))]"
proof -
  define rt where "rt = table_env
        [(request_payload 1 ''ping'' JNull, ''q1''),
         (error_response (JInt 1) (- 32601) ''Method not found: ping'', ''a1''),
         (request_payload 2 ''tools/call'' (JObj [(''name'', JStr ''horn'')]), ''q2''),
         (error_response (JInt 2) (- 32000) ''Unknown tool: horn'', ''a2'')]"
  let ?reqs = "[(''ping'', JNull), (''tools/call'', JObj [(''name'', JStr ''horn'')])]"
  have r1: "reply_to rt (request_payload 1 ''ping'' JNull)
      = Some (error_response (JInt 1) (- 32601) ''Method not found: ping'')"
    using reply_unknown_method [of "''ping''" rt 1 JNull] by simp
  have r2: "reply_to rt (request_payload 2 ''tools/call'' (JObj [(''name'', JStr ''horn'')]))
      = Some (error_response (JInt 2) (- 32000) ''Unknown tool: horn'')"
    using reply_unknown_tool [of "[(''name'', JStr ''horn'')]" "''horn''" rt 2]
    by (simp add: dict_get_default_def tool_names_def TOOLS_def)
  have f: "faithful rt (request_payload 1 ''ping'' JNull)"
    "faithful rt (error_response (JInt 1) (- 32601) ''Method not found: ping'')"
    "faithful rt (request_payload 2 ''tools/call'' (JObj [(''name'', JStr ''horn'')]))"
    "faithful rt (error_response (JInt 2) (- 32000) ''Unknown tool: horn'')"
    by (simp_all add: rt_def faithful_def table_env_def allocate_def request_payload_def error_response_def)
  have a: "\<forall>(method, params) \<in> set ?reqs. method \<noteq> ''notifications/initialized''"
    by simp
  have b: "\<forall>p \<in> set (payloads_from 1 ?reqs).
             faithful rt p \<and> (\<forall>r. reply_to rt p = Some r \<longrightarrow> faithful rt r)"
    using f by (simp add: r1 r2)
  from responses_match_requests [OF a b]
  have "map fst (run_requests rt connect ?reqs) = [1, 2]"
    and "map snd (run_requests rt connect ?reqs) =
          [Return (error_response (JInt 1) (- 32601) ''Method not found: ping''),
           Return (error_response (JInt 2) (- 32000) ''Unknown tool: horn'')]"
    by (simp_all add: r1 r2 upto_rec1)
  then show ?thesis
    unfolding rt_def [symmetric] by (rule pairs_of_maps)
qed

lemma client_read_nothing: "client_read rt False [] = (Blocks, [])"
  by (simp add: client_read_def read_headers.simps [of _ _ _ "[]"] readline_def)

lemma request_unanswered:
  assumes "server w = Waiting []" and "stdout_pipe w = []"
      and "faithful rt (request_payload (next_id w) name params)"
      and "handle rt (request_payload (next_id w) name params) = Inr None"
  shows "fst (request_response rt w name params) = Blocks"
proof -
  let ?w1 = "w\<lparr>next_id := next_id w + 1\<rparr>"
  let ?p = "request_payload (next_id w) name params"
  have s: "client_send rt ?w1 ?p =
      (Return (), ?w1\<lparr>server := Waiting [], stdout_pipe := stdout_pipe ?w1 @ [],
                       sent := sent ?w1 @ [?p]\<rparr>)"
    using client_send_quiet [of ?w1 rt ?p None] assms by simp
  show ?thesis
    using assms(2) by (simp add: request_response_def Let_def s client_recv_def client_read_nothing)
qed

text \<open>
  Claim C2 as stated fails: a request can be made with any method, and the server answers
  nothing to the method \<open>notifications/initialized\<close>, whether the frame carries an id or
  not. The one request of this run is sent with id 1 and no response to it is ever
  received: \<open>request\<close> blocks in its read.
\<close>

theorem unanswered_request_blocks:
  "run_requests
     (table_env [(request_payload 1 ''notifications/initialized'' JNull, ''q1'')])
     connect
     [(''notifications/initialized'', JNull)]
   = [(1, Blocks)]"
proof -
  define rt where "rt = table_env [(request_payload 1 ''notifications/initialized'' JNull, ''q1'')]"
  have c: "server connect = Waiting []" "stdout_pipe connect = []" "next_id connect = 1"
    by (simp_all add: connect_def)
  have f: "faithful rt (request_payload (next_id connect) ''notifications/initialized'' JNull)"
    by (simp add: c rt_def faithful_def table_env_def allocate_def)
  have h: "handle rt (request_payload (next_id connect) ''notifications/initialized'' JNull) = Inr None"
    by (simp add: request_payload_def handle_dict dict_get_def)
  have "fst (request_response rt connect ''notifications/initialized'' JNull) = Blocks"
    by (rule request_unanswered [OF c(1,2) f h])
  then have "run_requests rt connect [(''notifications/initialized'', JNull)] = [(1, Blocks)]"
    by (cases "request_response rt connect ''notifications/initialized'' JNull") (simp add: c)
  then show ?thesis unfolding rt_def .
qed

section \<open>The tool-calling loop\<close>

lemma asks_for_toolsD:
  assumes "asks_for_tools (Return response)" and "message_of response = Inr message"
      and "value_get message ''tool_calls'' (JArr []) = Inr tool_calls"
  shows "truthy tool_calls"
  using assms by (simp add: asks_for_tools_def)

lemma openai_chat_cases:
  "openai_chat ai model messages tools = Raise (RuntimeError (JStr ''OPENAI_API_KEY is required''))
   \<or> (\<exists>payload. openai_chat ai model messages tools = post ai payload)"
  by (auto simp: openai_chat_def)

lemma tool_loop_bound:
  "tool_loop rt ai model tools left w ms = (r, w', ms', n) \<Longrightarrow> n \<le> left"
proof (induction left arbitrary: w ms r w' ms' n)
  case 0
  then show ?case by simp
next
  case (Suc left)
  obtain t w1 ms1 where i: "iteration rt ai model tools w ms = (t, w1, ms1)"
    by (cases "iteration rt ai model tools w ms")
  show ?case
  proof (cases t)
    case Next
    obtain r2 w2 ms2 n2 where l: "tool_loop rt ai model tools left w1 ms1 = (r2, w2, ms2, n2)"
      by (cases "tool_loop rt ai model tools left w1 ms1")
    with Suc.prems i Next have "n = Suc n2" by simp
    with Suc.IH [OF l] show ?thesis by simp
  qed (use Suc.prems i in simp_all)
qed

lemma iteration_final:
  assumes "\<forall>payload. asks_for_tools (post ai payload)"
  shows "iteration rt ai model tools w ms \<noteq> (Final v, w', ms')"
proof
  assume f: "iteration rt ai model tools w ms = (Final v, w', ms')"
  let ?c = "openai_chat ai model ms tools"
  from f obtain response where c: "?c = Return response"
    by (cases ?c) (simp_all add: iteration_def)
  with openai_chat_cases [of ai model ms tools] obtain payload
    where "post ai payload = Return response" by auto
  with assms have a: "asks_for_tools (Return response)" by metis
  from f c obtain message where m: "message_of response = Inr message"
    by (cases "message_of response") (simp_all add: iteration_def)
  from f c m obtain tool_calls
    where t: "value_get message ''tool_calls'' (JArr []) = Inr tool_calls"
    by (cases "value_get message ''tool_calls'' (JArr [])") (simp_all add: iteration_def)
  have tr: "truthy tool_calls" by (rule asks_for_toolsD [OF a m t])
  from f c m t tr show False
    by (auto simp: iteration_def split: sum.splits prod.splits outcome.splits)
qed

lemma tool_loop_sentinel:
  assumes "\<forall>payload. asks_for_tools (post ai payload)"
  shows "tool_loop rt ai model tools left w ms = (Return v, w', ms', n) \<Longrightarrow>
         v = SENTINEL \<and> n = left"
proof (induction left arbitrary: w ms w' ms' n)
  case 0
  then show ?case by simp
next
  case (Suc left)
  obtain t w1 ms1 where i: "iteration rt ai model tools w ms = (t, w1, ms1)"
    by (cases "iteration rt ai model tools w ms")
  show ?case
  proof (cases t)
    case (Final u)
    with i iteration_final [OF assms, of rt model tools w ms u w1 ms1] show ?thesis by simp
  next
    case Next
    obtain r2 w2 ms2 n2 where l: "tool_loop rt ai model tools left w1 ms1 = (r2, w2, ms2, n2)"
      by (cases "tool_loop rt ai model tools left w1 ms1")
    from Suc.prems i Next l have "r2 = Return v" "n = Suc n2" by simp_all
    with Suc.IH [of w1 ms1 w2 ms2 n2] l show ?thesis by simp
  qed (use Suc.prems i in simp_all)
qed

lemma tool_loop_goes_on:
  "goes_on rt ai model tools k w ms \<Longrightarrow>
   \<exists>w' ms'. tool_loop rt ai model tools k w ms = (Return SENTINEL, w', ms', k)"
proof (induction k arbitrary: w ms)
  case 0
  then show ?case by simp
next
  case (Suc k)
  obtain t w1 ms1 where i: "iteration rt ai model tools w ms = (t, w1, ms1)"
    by (cases "iteration rt ai model tools w ms")
  from Suc.prems i have t: "t = Next" by (cases t) simp_all
  with Suc.prems i have "goes_on rt ai model tools k w1 ms1" by simp
  from Suc.IH [OF this] obtain w' ms'
    where "tool_loop rt ai model tools k w1 ms1 = (Return SENTINEL, w', ms', k)" by blast
  with i t show ?case by simp
qed

text \<open>
  Claim C6, as the code has it. Whatever the chat service does, the loop of
  \<open>run_llm_flow\<close> starts at most 8 iterations. When the handshake has given the tools and
  each of the 8 iterations ends by going to the next one (its message has tool calls, and
  nothing in it raises or blocks), the function returns the sentinel
  \<open>Stopped after max tool-call iterations.\<close>, after exactly 8 iterations. And when no call
  of the service gives a message without tool calls, the sentinel is the only value the
  function can return. An iteration can raise: on a response of the service that has no
  message in it, on arguments that are not JSON, or when the server answers a tool call
  with an error, which \<open>request\<close> raises as \<open>RuntimeError\<close>; the exception then ends the run.
\<close>

theorem loop_cap:
  "snd (run_llm_flow rt ai prompt model) \<le> 8
   \<and> (\<forall>oa w. prepare rt = Return (oa, w)
              \<and> goes_on rt ai model oa 8 w (first_messages prompt) \<longrightarrow>
        run_llm_flow rt ai prompt model = (Return SENTINEL, 8))
   \<and> ((\<forall>payload. asks_for_tools (post ai payload)) \<longrightarrow>
        (\<forall>v. fst (run_llm_flow rt ai prompt model) = Return v \<longrightarrow>
             v = SENTINEL \<and> snd (run_llm_flow rt ai prompt model) = 8))"
proof -
  have b: "n \<le> 8" if "run_llm_flow rt ai prompt model = (r, n)" for r n
    using that
    by (auto simp: run_llm_flow_def split: prod.splits outcome.splits
        dest: tool_loop_bound)
  have g: "run_llm_flow rt ai prompt model = (Return SENTINEL, 8)"
    if "prepare rt = Return (oa, w)" and "goes_on rt ai model oa 8 w (first_messages prompt)"
    for oa w
    using tool_loop_goes_on [OF that(2)] that(1) by (auto simp: run_llm_flow_def)
  have s: "v = SENTINEL \<and> n = 8"
    if "\<forall>payload. asks_for_tools (post ai payload)"
      and "run_llm_flow rt ai prompt model = (Return v, n)" for v n
    using that(2)
    by (auto simp: run_llm_flow_def split: prod.splits outcome.splits
        dest: tool_loop_sentinel [OF that(1)])
  show ?thesis
    using b g s by (cases "run_llm_flow rt ai prompt model") auto
qed

subsection \<open>Two runs\<close>

lemma request_quiet:
  assumes "server w = Waiting []" and "stdout_pipe w = []"
      and "faithful rt (request_payload (next_id w) method params)"
      and "handle rt (request_payload (next_id w) method params) = Inr (Some r)"
      and "faithful rt r"
  shows "request rt w method params =
           (response_result r,
            w\<lparr>next_id := next_id w + 1, server := Waiting [], stdout_pipe := [],
              sent := sent w @ [request_payload (next_id w) method params]\<rparr>)"
  by (simp add: request_def request_response_quiet [OF assms])

lemma faithful_table:
  assumes "distinct (map fst tab)" and "distinct (map snd tab)" and "(m, s) \<in> set tab"
      and "s \<noteq> [] \<and> length s < 2147483648"
  shows "faithful (table_env tab) m"
proof -
  have a: "map_of tab m = Some s"
    using assms(1,3) by (rule map_of_is_SomeI)
  have "distinct (map fst (map (\<lambda>(v, t). (t, v)) tab))"
    using assms(2) by (simp add: comp_def case_prod_beta)
  moreover have "(s, m) \<in> set (map (\<lambda>(v, t). (t, v)) tab)"
    using assms(3) by force
  ultimately have b: "map_of (map (\<lambda>(v, t). (t, v)) tab) s = Some m"
    by (rule map_of_is_SomeI)
  show ?thesis
    using a b assms(4) by (simp add: faithful_def table_env_def allocate_def)
qed

lemma loads_table:
  assumes "distinct (map snd tab)" and "(m, s) \<in> set tab"
  shows "loads (table_env tab) s = Inr m"
proof -
  have "distinct (map fst (map (\<lambda>(v, t). (t, v)) tab))"
    using assms(1) by (simp add: comp_def case_prod_beta)
  moreover have "(s, m) \<in> set (map (\<lambda>(v, t). (t, v)) tab)"
    using assms(2) by force
  ultimately have "map_of (map (\<lambda>(v, t). (t, v)) tab) s = Some m"
    by (rule map_of_is_SomeI)
  then show ?thesis by (simp add: table_env_def)
qed

lemma dumps_table_other:
  "m \<notin> set (map fst tab) \<Longrightarrow> dumps (table_env tab) m = ''null''"
  by (simp add: table_env_def map_of_eq_None_iff [THEN iffD2])

lemma run_table_texts: "distinct (map snd (run_table name answer))"
  by (simp add: run_table_def)


lemma run_table_documents:
  "distinct (map fst (run_table ''navigation'' navigation_answer))"
  "distinct (map fst (run_table ''horn'' horn_answer))"
  by (simp_all add: run_table_def call_payload_def request_payload_def notify_payload_def
      result_response_def error_response_def navigation_answer_def horn_answer_def
      initialize_params_def)


lemma handle_navigation_call:
  "handle rt (call_payload ''navigation'' k) =
     Inr (Some (result_response (JInt k)
       (text_content rt
         (JObj [(''service'', JStr ''Navigation''),
                (''destination'', JStr ''Office''),
                (''distance_km'', JInt 24),
                (''eta_minutes'', JInt 38),
                (''route_risk_zone'', JStr ''moderate'')]))))"
  by (simp add: call_payload_def request_payload_def handle_dict dict_get_def
      dict_get_default_def call_from_params_def truthy_def reply_if_def tool_call_def
      arguments_get_def call_with_def navigation_def)

lemma handle_horn_call:
  "handle rt (call_payload ''horn'' k) =
     Inr (Some (error_response (JInt k) (- 32000) ''Unknown tool: horn''))"
  by (simp add: call_payload_def request_payload_def handle_dict dict_get_def
      dict_get_default_def call_from_params_def truthy_def reply_if_def tool_call_def
      str_exc_def format_value_def)

lemma tool_message_answered:
  assumes "server w = Waiting []" and "stdout_pipe w = []"
      and "loads rt ''{}'' = Inr (JObj [])"
      and "faithful rt (call_payload name (next_id w))"
      and "handle rt (call_payload name (next_id w)) = Inr (Some r)"
      and "faithful rt r"
  shows "tool_message rt w
           (JObj [(''id'', JStr ''call''),
                  (''function'', JObj [(''name'', JStr name), (''arguments'', JStr ''{}'')])]) =
         (case response_result r of
            Raise e \<Rightarrow>
              (Raise e,
               w\<lparr>next_id := next_id w + 1, server := Waiting [], stdout_pipe := [],
                 sent := sent w @ [call_payload name (next_id w)]\<rparr>)
          | Blocks \<Rightarrow>
              (Blocks,
               w\<lparr>next_id := next_id w + 1, server := Waiting [], stdout_pipe := [],
                 sent := sent w @ [call_payload name (next_id w)]\<rparr>)
          | Return tool_result \<Rightarrow>
              (case value_get tool_result ''content'' (JArr []) of
                 Inl e \<Rightarrow>
                   (Raise e,
                    w\<lparr>next_id := next_id w + 1, server := Waiting [], stdout_pipe := [],
                      sent := sent w @ [call_payload name (next_id w)]\<rparr>)
               | Inr content \<Rightarrow>
                   (case iterate content of
                      Inl e \<Rightarrow>
                        (Raise e,
                         w\<lparr>next_id := next_id w + 1, server := Waiting [], stdout_pipe := [],
                           sent := sent w @ [call_payload name (next_id w)]\<rparr>)
                    | Inr items \<Rightarrow>
                        (case collect_text items [] of
                           Inl e \<Rightarrow>
                             (Raise e,
                              w\<lparr>next_id := next_id w + 1, server := Waiting [], stdout_pipe := [],
                                sent := sent w @ [call_payload name (next_id w)]\<rparr>)
                         | Inr tool_text \<Rightarrow>
                             (Return (JObj [(''role'', JStr ''tool''), (''tool_call_id'', JStr ''call''),
                                            (''name'', JStr name), (''content'', JStr tool_text)]),
                              w\<lparr>next_id := next_id w + 1, server := Waiting [], stdout_pipe := [],
                                sent := sent w @ [call_payload name (next_id w)]\<rparr>)))))"
proof -
  have r: "request rt w ''tools/call'' (JObj [(''name'', JStr name), (''arguments'', JObj [])]) =
      (response_result r,
       w\<lparr>next_id := next_id w + 1, server := Waiting [], stdout_pipe := [],
         sent := sent w @ [call_payload name (next_id w)]\<rparr>)"
    using request_quiet [OF assms(1,2) assms(4) [unfolded call_payload_def]
        assms(5) [unfolded call_payload_def] assms(6)]
    by (simp add: call_payload_def)
  show ?thesis
    by (simp add: tool_message_def subscript_def value_get_def dict_get_default_def assms(3) r
        split: outcome.splits sum.splits)
qed


lemma always_calls_iteration:
  "iteration rt (always_calls name) model tools w ms =
     (case tool_message rt w
             (JObj [(''id'', JStr ''call''),
                    (''function'', JObj [(''name'', JStr name), (''arguments'', JStr ''{}'')])]) of
        (Raise e, w') \<Rightarrow>
          (Raised e, w',
           ms @ [JObj [(''role'', JStr ''assistant''),
                       (''tool_calls'',
                          JArr [JObj [(''id'', JStr ''call''),
                                      (''function'', JObj [(''name'', JStr name),
                                                           (''arguments'', JStr ''{}'')])]])]])
      | (Blocks, w') \<Rightarrow>
          (Stuck, w',
           ms @ [JObj [(''role'', JStr ''assistant''),
                       (''tool_calls'',
                          JArr [JObj [(''id'', JStr ''call''),
                                      (''function'', JObj [(''name'', JStr name),
                                                           (''arguments'', JStr ''{}'')])]])]])
      | (Return m, w') \<Rightarrow>
          (Next, w',
           ms @ [JObj [(''role'', JStr ''assistant''),
                       (''tool_calls'',
                          JArr [JObj [(''id'', JStr ''call''),
                                      (''function'', JObj [(''name'', JStr name),
                                                           (''arguments'', JStr ''{}'')])]])]]
              @ [m]))"
  by (simp add: iteration_def openai_chat_def always_calls_def message_of_def subscript_def
      first_item_def value_get_def dict_get_default_def truthy_def iterate_def
      split: prod.splits outcome.splits)

lemma always_calls_asks: "asks_for_tools (post (always_calls name) payload)"
  by (simp add: asks_for_tools_def always_calls_def message_of_def subscript_def first_item_def
      value_get_def dict_get_default_def truthy_def)

lemma navigation_goes_on:
  assumes "loads rt ''{}'' = Inr (JObj [])"
  shows "server w = Waiting [] \<Longrightarrow> stdout_pipe w = [] \<Longrightarrow>
         \<forall>k. next_id w \<le> k \<and> k < next_id w + int left \<longrightarrow>
             faithful rt (call_payload ''navigation'' k)
             \<and> (\<forall>r. handle rt (call_payload ''navigation'' k) = Inr (Some r) \<longrightarrow> faithful rt r) \<Longrightarrow>
         goes_on rt (always_calls ''navigation'') model tools left w ms"
proof (induction left arbitrary: w ms)
  case 0
  then show ?case by simp
next
  case (Suc left)
  let ?k = "next_id w"
  let ?w' = "w\<lparr>next_id := next_id w + 1, server := Waiting [], stdout_pipe := [],
               sent := sent w @ [call_payload ''navigation'' (next_id w)]\<rparr>"
  from Suc.prems(3) have f: "faithful rt (call_payload ''navigation'' ?k)"
    and f2: "\<And>r. handle rt (call_payload ''navigation'' ?k) = Inr (Some r) \<Longrightarrow> faithful rt r"
    by auto
  note h = handle_navigation_call [of rt ?k]
  have tm: "\<exists>m. tool_message rt w
           (JObj [(''id'', JStr ''call''),
                  (''function'', JObj [(''name'', JStr ''navigation''), (''arguments'', JStr ''{}'')])])
        = (Return m, ?w')"
    unfolding tool_message_answered [OF Suc.prems(1,2) assms f h f2 [OF h]]
    by (simp add: response_result_def result_response_def text_content_def value_get_def
        dict_get_default_def iterate_def dict_get_def)
  then obtain m where tm': "tool_message rt w
           (JObj [(''id'', JStr ''call''),
                  (''function'', JObj [(''name'', JStr ''navigation''), (''arguments'', JStr ''{}'')])])
        = (Return m, ?w')" ..
  have q: "server ?w' = Waiting []" "stdout_pipe ?w' = []" by simp_all
  have r: "\<forall>k. next_id ?w' \<le> k \<and> k < next_id ?w' + int left \<longrightarrow>
             faithful rt (call_payload ''navigation'' k)
             \<and> (\<forall>r. handle rt (call_payload ''navigation'' k) = Inr (Some r) \<longrightarrow> faithful rt r)"
  proof (intro allI impI)
    fix k
    assume "next_id ?w' \<le> k \<and> k < next_id ?w' + int left"
    then have "next_id w \<le> k \<and> k < next_id w + int (Suc left)" by simp
    with Suc.prems(3) show "faithful rt (call_payload ''navigation'' k)
             \<and> (\<forall>r. handle rt (call_payload ''navigation'' k) = Inr (Some r) \<longrightarrow> faithful rt r)"
      by blast
  qed
  show ?case
    by (simp add: always_calls_iteration tm' Suc.IH [OF q r])
qed


lemma handle_handshake:
  "handle rt (request_payload k ''initialize'' initialize_params)
     = Inr (Some (result_response (JInt k) initialize_result))"
  "handle rt (request_payload k ''tools/list'' JNull)
     = Inr (Some (result_response (JInt k) tools_listing))"
  by (simp_all add: handle_def Let_def request_payload_def dict_get_def reply_if_def)

lemma response_result_result:
  "response_result (result_response i result) = Return result"
  "response_result (error_response i code message) = Raise (RuntimeError (JStr message))"
  by (simp_all add: response_result_def result_response_def error_response_def
      dict_get_default_def)

lemma oa_tools_of_listing:
  "\<exists>ts oa. subscript tools_listing ''tools'' = Inr (JArr ts) \<and> oa_tools_of ts = Inr oa"
  by (simp add: tools_listing_def TOOLS_def subscript_def dict_get_def dict_get_default_def)

lemma handshake:
  assumes "faithful rt (request_payload 1 ''initialize'' initialize_params)"
      and "faithful rt (result_response (JInt 1) initialize_result)"
      and "faithful rt (notify_payload ''notifications/initialized'' JNull)"
      and "faithful rt (request_payload 2 ''tools/list'' JNull)"
      and "faithful rt (result_response (JInt 2) tools_listing)"
  shows "\<exists>oa sent3. prepare rt =
           Return (oa, \<lparr>next_id = 3, server = Waiting [], stdout_pipe = [], sent = sent3\<rparr>)"
proof -
  define w1 where "w1 = \<lparr>next_id = 2, server = Waiting [], stdout_pipe = [],
      sent = [request_payload 1 ''initialize'' initialize_params]\<rparr>"
  define w2 where "w2 = \<lparr>next_id = 2, server = Waiting [], stdout_pipe = [],
      sent = [request_payload 1 ''initialize'' initialize_params,
              notify_payload ''notifications/initialized'' JNull]\<rparr>"
  define w3 where "w3 = \<lparr>next_id = 3, server = Waiting [], stdout_pipe = [],
      sent = [request_payload 1 ''initialize'' initialize_params,
              notify_payload ''notifications/initialized'' JNull,
              request_payload 2 ''tools/list'' JNull]\<rparr>"
  have c: "server connect = Waiting []" "stdout_pipe connect = []" "next_id connect = 1"
    by (simp_all add: connect_def)
  have r1: "request rt connect ''initialize'' initialize_params = (Return initialize_result, w1)"
    using request_quiet [OF c(1,2), of rt "''initialize''" initialize_params
        "result_response (JInt 1) initialize_result"] assms(1,2)
    by (simp add: c handle_handshake response_result_result w1_def connect_def)
  have q1: "server w1 = Waiting []" "stdout_pipe w1 = []" "next_id w1 = 2"
    by (simp_all add: w1_def)
  have n: "notify rt w1 ''notifications/initialized'' JNull = (Return (), w2)"
    using notify_quiet [OF q1(1) assms(3) notification_not_answered]
    by (simp add: w1_def w2_def)
  have q2: "server w2 = Waiting []" "stdout_pipe w2 = []" "next_id w2 = 2"
    by (simp_all add: w2_def)
  have r2: "request rt w2 ''tools/list'' JNull = (Return tools_listing, w3)"
    using request_quiet [OF q2(1,2), of rt "''tools/list''" JNull
        "result_response (JInt 2) tools_listing"] assms(4,5)
    by (simp add: q2 handle_handshake response_result_result w2_def w3_def)
  from oa_tools_of_listing obtain ts oa
    where s: "subscript tools_listing ''tools'' = Inr (JArr ts)" and o: "oa_tools_of ts = Inr oa"
    by blast
  have "prepare rt = Return (oa, w3)"
    by (simp add: prepare_def r1 n r2 s o iterate_def)
  then show ?thesis unfolding w3_def by blast
qed

lemma run_table_members:
  "(JObj [], ''{}'') \<in> set (run_table name answer)"
  "(request_payload 1 ''initialize'' initialize_params, ''q1'') \<in> set (run_table name answer)"
  "(result_response (JInt 1) initialize_result, ''a1'') \<in> set (run_table name answer)"
  "(notify_payload ''notifications/initialized'' JNull, ''n'') \<in> set (run_table name answer)"
  "(request_payload 2 ''tools/list'' JNull, ''q2'') \<in> set (run_table name answer)"
  "(result_response (JInt 2) tools_listing, ''a2'') \<in> set (run_table name answer)"
  by (simp_all add: run_table_def)

lemma run_table_calls:
  "(call_payload name 3, ''q3'') \<in> set (run_table name answer)"
  "(call_payload name 4, ''q4'') \<in> set (run_table name answer)"
  "(call_payload name 5, ''q5'') \<in> set (run_table name answer)"
  "(call_payload name 6, ''q6'') \<in> set (run_table name answer)"
  "(call_payload name 7, ''q7'') \<in> set (run_table name answer)"
  "(call_payload name 8, ''q8'') \<in> set (run_table name answer)"
  "(call_payload name 9, ''q9'') \<in> set (run_table name answer)"
  "(call_payload name 10, ''q10'') \<in> set (run_table name answer)"
  by (simp_all add: run_table_def)

lemma run_table_answers:
  "(answer 3, ''a3'') \<in> set (run_table name answer)"
  "(answer 4, ''a4'') \<in> set (run_table name answer)"
  "(answer 5, ''a5'') \<in> set (run_table name answer)"
  "(answer 6, ''a6'') \<in> set (run_table name answer)"
  "(answer 7, ''a7'') \<in> set (run_table name answer)"
  "(answer 8, ''a8'') \<in> set (run_table name answer)"
  "(answer 9, ''a9'') \<in> set (run_table name answer)"
  "(answer 10, ''a10'') \<in> set (run_table name answer)"
  by (simp_all add: run_table_def)


lemma run_table_faithful:
  assumes "distinct (map fst (run_table name answer))"
  shows "loads (table_env (run_table name answer)) ''{}'' = Inr (JObj [])"
    "faithful (table_env (run_table name answer)) (request_payload 1 ''initialize'' initialize_params)"
    "faithful (table_env (run_table name answer)) (result_response (JInt 1) initialize_result)"
    "faithful (table_env (run_table name answer)) (notify_payload ''notifications/initialized'' JNull)"
    "faithful (table_env (run_table name answer)) (request_payload 2 ''tools/list'' JNull)"
    "faithful (table_env (run_table name answer)) (result_response (JInt 2) tools_listing)"
    "k \<in> {3, 4, 5, 6, 7, 8, 9, 10} \<Longrightarrow>
       faithful (table_env (run_table name answer)) (call_payload name k)
       \<and> faithful (table_env (run_table name answer)) (answer k)"
proof -
  note f = faithful_table [OF assms run_table_texts]
  show "loads (table_env (run_table name answer)) ''{}'' = Inr (JObj [])"
    by (rule loads_table [OF run_table_texts run_table_members(1)])
  show "faithful (table_env (run_table name answer)) (request_payload 1 ''initialize'' initialize_params)"
    by (rule f [OF run_table_members(2)]) simp
  show "faithful (table_env (run_table name answer)) (result_response (JInt 1) initialize_result)"
    by (rule f [OF run_table_members(3)]) simp
  show "faithful (table_env (run_table name answer)) (notify_payload ''notifications/initialized'' JNull)"
    by (rule f [OF run_table_members(4)]) simp
  show "faithful (table_env (run_table name answer)) (request_payload 2 ''tools/list'' JNull)"
    by (rule f [OF run_table_members(5)]) simp
  show "faithful (table_env (run_table name answer)) (result_response (JInt 2) tools_listing)"
    by (rule f [OF run_table_members(6)]) simp
  have q: "faithful (table_env (run_table name answer)) (call_payload name 3)"
    "faithful (table_env (run_table name answer)) (call_payload name 4)"
    "faithful (table_env (run_table name answer)) (call_payload name 5)"
    "faithful (table_env (run_table name answer)) (call_payload name 6)"
    "faithful (table_env (run_table name answer)) (call_payload name 7)"
    "faithful (table_env (run_table name answer)) (call_payload name 8)"
    "faithful (table_env (run_table name answer)) (call_payload name 9)"
    "faithful (table_env (run_table name answer)) (call_payload name 10)"
    by (rule f [OF run_table_calls(1)], simp, rule f [OF run_table_calls(2)], simp,
        rule f [OF run_table_calls(3)], simp, rule f [OF run_table_calls(4)], simp,
        rule f [OF run_table_calls(5)], simp, rule f [OF run_table_calls(6)], simp,
        rule f [OF run_table_calls(7)], simp, rule f [OF run_table_calls(8)], simp)
  have a: "faithful (table_env (run_table name answer)) (answer 3)"
    "faithful (table_env (run_table name answer)) (answer 4)"
    "faithful (table_env (run_table name answer)) (answer 5)"
    "faithful (table_env (run_table name answer)) (answer 6)"
    "faithful (table_env (run_table name answer)) (answer 7)"
    "faithful (table_env (run_table name answer)) (answer 8)"
    "faithful (table_env (run_table name answer)) (answer 9)"
    "faithful (table_env (run_table name answer)) (answer 10)"
    by (rule f [OF run_table_answers(1)], simp, rule f [OF run_table_answers(2)], simp,
        rule f [OF run_table_answers(3)], simp, rule f [OF run_table_answers(4)], simp,
        rule f [OF run_table_answers(5)], simp, rule f [OF run_table_answers(6)], simp,
        rule f [OF run_table_answers(7)], simp, rule f [OF run_table_answers(8)], simp)
  show "faithful (table_env (run_table name answer)) (call_payload name k)
       \<and> faithful (table_env (run_table name answer)) (answer k)"
    if "k \<in> {3, 4, 5, 6, 7, 8, 9, 10}"
    using that q a by (elim insertE emptyE) simp_all
qed


lemma navigation_text:
  "text_content (table_env (run_table ''navigation'' navigation_answer))
     (JObj [(''service'', JStr ''Navigation''),
            (''destination'', JStr ''Office''),
            (''distance_km'', JInt 24),
            (''eta_minutes'', JInt 38),
            (''route_risk_zone'', JStr ''moderate'')])
   = JObj [(''content'', JArr [JObj [(''type'', JStr ''text''), (''text'', JStr ''null'')]]),
           (''isError'', JBool False)]"
proof -
  have "dumps (table_env (run_table ''navigation'' navigation_answer))
     (JObj [(''service'', JStr ''Navigation''),
            (''destination'', JStr ''Office''),
            (''distance_km'', JInt 24),
            (''eta_minutes'', JInt 38),
            (''route_risk_zone'', JStr ''moderate'')]) = ''null''"
    by (rule dumps_table_other)
      (simp add: run_table_def call_payload_def request_payload_def notify_payload_def
        result_response_def navigation_answer_def)
  then show ?thesis by (simp add: text_content_def)
qed

text \<open>
  The service keeps asking for the tool \<open>navigation\<close>: the handshake succeeds, each of
  the eight iterations calls the tool and goes to the next one, and the run returns the
  sentinel after 8 iterations.
\<close>

theorem loop_cap_witness:
  "(\<exists>oa w. prepare (table_env (run_table ''navigation'' navigation_answer)) = Return (oa, w)
           \<and> goes_on (table_env (run_table ''navigation'' navigation_answer))
                 (always_calls ''navigation'') ''gpt-4o-mini'' oa 8 w (first_messages ''hello''))
   \<and> asks_for_tools (post (always_calls ''navigation'') JNull)
   \<and> run_llm_flow (table_env (run_table ''navigation'' navigation_answer))
        (always_calls ''navigation'') ''hello'' ''gpt-4o-mini''
      = (Return SENTINEL, 8)"
proof -
  define rt where "rt = table_env (run_table ''navigation'' navigation_answer)"
  note f = run_table_faithful [OF run_table_documents(1), folded rt_def]
  from handshake [OF f(2-6)] obtain oa sent3 where
    p: "prepare rt =
          Return (oa, \<lparr>next_id = 3, server = Waiting [], stdout_pipe = [], sent = sent3\<rparr>)"
    by blast
  let ?w = "\<lparr>next_id = 3, server = Waiting [], stdout_pipe = [], sent = sent3\<rparr>"
  have calls: "\<forall>k. next_id ?w \<le> k \<and> k < next_id ?w + int 8 \<longrightarrow>
             faithful rt (call_payload ''navigation'' k)
             \<and> (\<forall>r. handle rt (call_payload ''navigation'' k) = Inr (Some r) \<longrightarrow> faithful rt r)"
  proof (intro allI impI)
    fix k :: int
    assume "next_id ?w \<le> k \<and> k < next_id ?w + int 8"
    then have k: "k \<in> {3, 4, 5, 6, 7, 8, 9, 10}" by auto
    have "handle rt (call_payload ''navigation'' k) = Inr (Some (navigation_answer k))"
      by (simp add: handle_navigation_call rt_def navigation_text navigation_answer_def)
    with f(7) [OF k] show "faithful rt (call_payload ''navigation'' k)
             \<and> (\<forall>r. handle rt (call_payload ''navigation'' k) = Inr (Some r) \<longrightarrow> faithful rt r)"
      by simp
  qed
  have g: "goes_on rt (always_calls ''navigation'') ''gpt-4o-mini'' oa 8 ?w (first_messages ''hello'')"
    by (rule navigation_goes_on [OF f(1) _ _ calls]) simp_all
  from loop_cap [of rt "always_calls ''navigation''" "''hello''" "''gpt-4o-mini''"] p g
  have "run_llm_flow rt (always_calls ''navigation'') ''hello'' ''gpt-4o-mini''
      = (Return SENTINEL, 8)"
    by blast
  with p g always_calls_asks [of "''navigation''" JNull] show ?thesis
    unfolding rt_def by blast
qed

text \<open>
  Claim C6 as stated fails: the service asks in every message for a tool that is not
  registered, so no iteration produces a message without tool calls; the server answers the
  first call with the error -32000, \<open>request\<close> raises it, and the run ends with that
  \<open>RuntimeError\<close> in its first iteration instead of returning the sentinel.
\<close>

theorem loop_fails_on_unknown_tool:
  "asks_for_tools (post (always_calls ''horn'') JNull)
   \<and> run_llm_flow (table_env (run_table ''horn'' horn_answer))
        (always_calls ''horn'') ''hello'' ''gpt-4o-mini''
      = (Raise (RuntimeError (JStr ''Unknown tool: horn'')), 1)"
proof -
  define rt where "rt = table_env (run_table ''horn'' horn_answer)"
  note f = run_table_faithful [OF run_table_documents(2), folded rt_def]
  from handshake [OF f(2-6)] obtain oa sent3 where
    p: "prepare rt =
          Return (oa, \<lparr>next_id = 3, server = Waiting [], stdout_pipe = [], sent = sent3\<rparr>)"
    by blast
  let ?w = "\<lparr>next_id = 3, server = Waiting [], stdout_pipe = [], sent = sent3\<rparr>"
  have k: "(3::int) \<in> {3, 4, 5, 6, 7, 8, 9, 10}" by simp
  have h: "handle rt (call_payload ''horn'' (next_id ?w)) = Inr (Some (horn_answer 3))"
    by (simp add: handle_horn_call horn_answer_def)
  have q: "server ?w = Waiting []" "stdout_pipe ?w = []" by simp_all
  have fq: "faithful rt (call_payload ''horn'' (next_id ?w))" and fa: "faithful rt (horn_answer 3)"
    using f(7) [OF k] by simp_all
  have tm: "fst (tool_message rt ?w
           (JObj [(''id'', JStr ''call''),
                  (''function'', JObj [(''name'', JStr ''horn''), (''arguments'', JStr ''{}'')])]))
        = Raise (RuntimeError (JStr ''Unknown tool: horn''))"
    unfolding tool_message_answered [OF q f(1) fq h fa]
    by (simp add: horn_answer_def response_result_result)
  have e: "(8::nat) = Suc 7" by simp
  have "run_llm_flow rt (always_calls ''horn'') ''hello'' ''gpt-4o-mini''
      = (Raise (RuntimeError (JStr ''Unknown tool: horn'')), 1)"
    unfolding run_llm_flow_def p e outcome.case prod.case tool_loop.simps(2)
      always_calls_iteration
    using tm
    by (cases "tool_message rt ?w
           (JObj [(''id'', JStr ''call''),
                  (''function'', JObj [(''name'', JStr ''horn''), (''arguments'', JStr ''{}'')])])")
      simp
  with always_calls_asks [of "''horn''" JNull] show ?thesis
    unfolding rt_def by simp
qed

end
